theory Spec2Isabelle
  imports Complex_Main
begin

section \<open>Data model\<close>

text \<open>
  The vault interface of the SDK (class \<open>VaultInterface\<close>) and the transaction service
  (class \<open>TransactionService\<close>), embedded as functions over an explicit log of
  collaborator invocations.

  Addresses are strings, \<open>Integer\<close> is the SDK's decimal-string integer. Record fields
  carry a prefix per record since several TypeScript types share property names.
  Properties that none of the embedded functions reads or writes are left out of the
  records. A property holding \<open>undefined\<close> and an absent property are both \<open>None\<close>,
  except in the call overrides, where an object spread tells them apart.
\<close>

type_synonym Address = string
type_synonym Integer = string

text \<open>
  A \<open>BigNumberish\<close> of ethers: a \<open>BigNumber\<close> object, a JavaScript number or a string.
  Only its truthiness matters to the code below (\<open>overrides.gasPrice || fallbackGasPrice\<close>).
\<close>

datatype BigNumberish = BigNumber int | Number int | NumString string

fun truthyBN :: "BigNumberish \<Rightarrow> bool" where
  "truthyBN (BigNumber n) = True"
| "truthyBN (Number n) = (n \<noteq> 0)"
| "truthyBN (NumString s) = (s \<noteq> [])"

text \<open>
  A property of the overrides object: absent, present and holding \<open>undefined\<close>, or present
  with a value. Reading \<open>o.p\<close> gives \<open>undefined\<close> in the first two cases; the assignment
  \<open>o.p = v\<close> makes the property present, also when \<open>v\<close> is \<open>undefined\<close>; a spread
  \<open>{ ...lower, ...o }\<close> lets every present property of \<open>o\<close> win, also one that holds
  \<open>undefined\<close>.
\<close>

datatype 'a property = Absent | Undefined | Defined 'a

fun readProperty :: "'a property \<Rightarrow> 'a option" where
  "readProperty Absent = None"
| "readProperty Undefined = None"
| "readProperty (Defined v) = Some v"

fun writeProperty :: "'a option \<Rightarrow> 'a property" where
  "writeProperty None = Undefined"
| "writeProperty (Some v) = Defined v"

fun spreadProperty :: "'a property \<Rightarrow> 'a option \<Rightarrow> 'a option" where
  "spreadProperty Absent lower = lower"
| "spreadProperty Undefined lower = None"
| "spreadProperty (Defined v) lower = Some v"

record CallOverrides =
  ov_from :: "Address property"
  ov_value :: "BigNumberish property"
  ov_gasLimit :: "BigNumberish property"
  ov_gasPrice :: "BigNumberish property"
  ov_maxFeePerGas :: "BigNumberish property"
  ov_maxPriorityFeePerGas :: "BigNumberish property"
  ov_nonce :: "BigNumberish property"

text \<open>\<open>TransactionRequest\<close> and \<open>PopulatedTransaction\<close> of ethers share this shape.\<close>

record TransactionRequest =
  tx_to :: "Address option"
  tx_from :: "Address option"
  tx_data :: "string option"
  tx_value :: "BigNumberish option"
  tx_gasLimit :: "BigNumberish option"
  tx_gasPrice :: "BigNumberish option"
  tx_maxFeePerGas :: "BigNumberish option"
  tx_maxPriorityFeePerGas :: "BigNumberish option"
  tx_nonce :: "BigNumberish option"

record TransactionResponse =
  tr_hash :: string

record TokenAllowance =
  ta_owner :: Address
  ta_token :: Address
  ta_spender :: Address
  ta_amount :: Integer

record ApyFees =
  fee_performance :: "rat option"
  fee_withdrawal :: "rat option"
  fee_management :: "rat option"
  fee_keep_crv :: "rat option"
  fee_cvx_keep_crv :: "rat option"

record Apy =
  apy_type :: string
  apy_gross_apr :: rat
  apy_net_apy :: rat
  apy_fees :: ApyFees
  apy_points :: "string option"
  apy_composite :: "string option"

record VaultStrategiesMetadata =
  sm_vaultAddress :: Address
  sm_strategiesMetadata :: "string list"

record AssetHistoricEarnings =
  he_assetAddress :: Address
  he_dayData :: "(string \<times> string) list"

record VaultStatic =
  vs_address :: Address
  vs_typeId :: string
  vs_token :: Address
  vs_name :: string
  vs_version :: string
  vs_symbol :: string
  vs_decimals :: string

record VaultMetadata =
  md_symbol :: string
  md_migrationAvailable :: bool
  md_emergencyShutdown :: bool
  md_apy :: "Apy option"
  md_displayName :: string
  md_displayIcon :: string
  md_defaultDisplayToken :: Address
  md_strategies :: "VaultStrategiesMetadata option"
  md_historicEarnings :: "(string \<times> string) list option"
  md_depositsDisabled :: "bool option"
  md_withdrawalsDisabled :: "bool option"
  md_allowZapIn :: "bool option"
  md_allowZapOut :: "bool option"
  md_zapInWith :: "string option"
  md_zapOutWith :: "string option"
  md_migrationContract :: "Address option"
  md_migrationTargetVault :: "Address option"
  md_vaultNameOverride :: "string option"
  md_vaultDetailPageAssets :: "string list option"
  md_hideIfNoDeposits :: bool

record VaultDynamic =
  vd_address :: Address
  vd_typeId :: string
  vd_tokenId :: Address
  vd_underlyingTokenBalance :: "Integer \<times> Integer"
  vd_metadata :: VaultMetadata

record VaultMetadataOverrides =
  mo_address :: Address
  mo_hideAlways :: "bool option"
  mo_order :: "rat option"
  mo_displayName :: "string option"
  mo_vaultSymbolOverride :: "string option"
  mo_vaultIconOverride :: "string option"
  mo_apyTypeOverride :: "string option"
  mo_apyOverride :: "rat option"
  mo_depositsDisabled :: "bool option"
  mo_withdrawalsDisabled :: "bool option"
  mo_allowZapIn :: "bool option"
  mo_allowZapOut :: "bool option"
  mo_zapInWith :: "string option"
  mo_zapOutWith :: "string option"
  mo_migrationContract :: "Address option"
  mo_migrationTargetVault :: "Address option"
  mo_vaultNameOverride :: "string option"
  mo_vaultDetailPageAssets :: "string list option"
  mo_retired :: "bool option"
  mo_migrationAvailable :: "bool option"

text \<open>The composed vault \<open>{ ...asset, ...dynamic }\<close>: the dynamic properties win on a clash.\<close>

record Vault =
  v_address :: Address
  v_typeId :: string
  v_token :: Address
  v_name :: string
  v_version :: string
  v_symbol :: string
  v_decimals :: string
  v_tokenId :: Address
  v_underlyingTokenBalance :: "Integer \<times> Integer"
  v_metadata :: VaultMetadata

record Position =
  pos_assetAddress :: Address
  pos_tokenAddress :: Address
  pos_typeId :: string
  pos_balance :: Integer

record DepositOptions =
  dep_slippage :: "rat option"

record WithdrawOptions =
  wd_slippage :: "rat option"
  wd_signature :: "string option"

datatype ZapProtocol = PICKLE | YEARN

datatype ContractAddressId = Id_pickleZapIn | Id_zapperZapIn | Id_zapperZapOut

text \<open>What the zapper returns from \<open>zapIn\<close> and \<open>zapOut\<close>; the numeric strings are taken as
  already parsed, \<open>BigNumber.from\<close> being the constructor \<open>BigNumber\<close>.\<close>

record ZapParams =
  zp_to :: Address
  zp_from :: Address
  zp_data :: string
  zp_value :: int
  zp_gas :: int
  zp_gasPrice :: int

section \<open>Errors and collaborators\<close>

text \<open>
  A thrown value is an \<open>SdkError\<close> of the SDK, a \<open>TypeError\<close> of the runtime, or whatever
  a collaborator rejects with: a message and, for node errors, a numeric \<open>code\<close>.
\<close>

datatype error =
    SdkError string
  | TypeError string
  | External "int option" string

fun errorCode :: "error \<Rightarrow> int option" where
  "errorCode (SdkError m) = None"
| "errorCode (TypeError m) = None"
| "errorCode (External c m) = c"

text \<open>
  Every invocation of a collaborator (registry adapter, cache, metadata service, zapper,
  wido, allow list, signer, token interface, address provider, ethers contract) is
  recorded with its arguments. Adapters are named by their position in
  \<open>Object.values(lens.adapters.vaults)\<close>.
\<close>

datatype call =
    CachedFetcherGet
  | CachedFetcherGetDynamic
  | MetaVaults
  | AssetsStatic nat "Address list option" "CallOverrides option"
  | AssetsDynamic nat "Address list option" "CallOverrides option"
  | AdapterPositionsOf nat Address "Address list option" "CallOverrides option"
  | VisionApy "Address list"
  | ZapperSupportedVaultAddresses
  | VaultsStrategiesMetadata "Address list"
  | AssetsHistoricEarnings
  | TokensAllowance Address Address Address
  | TokensApprove Address Address Address Integer "CallOverrides option"
  | AddressById ContractAddressId
  | WidoDeposit Address Address Integer Address
  | WidoWithdraw Address Address Integer Address
  | ZapperZapIn Address Address Integer Address string rat bool ZapProtocol "string option"
  | ZapperZapOut Address Address Integer Address string rat bool "string option"
  | ValidateCalldata "Address option" "string option"
  | SignerSendTransaction TransactionRequest
  | PartnerPopulateDeposit Address Integer CallOverrides
  | ContractPopulate Address string Integer CallOverrides

type_synonym history = "call list"

record Partner =
  partner_isAllowed :: "Address \<Rightarrow> bool"
  partner_address :: "Address option"
  partner_partnerId :: string

text \<open>
  The SDK instance. The constants and helpers imported from \<open>../chain\<close>, \<open>../helpers\<close>,
  \<open>./helpers\<close> and \<open>../services/partners/pickle\<close> are parameters: \<open>isEthereum\<close> and
  \<open>isFantom\<close> are the values of \<open>isEthereum(this.chainId)\<close> and \<open>isFantom(this.chainId)\<close>.
  Each collaborator answers as a function of the invocations made so far and of its
  arguments, so that the same request may fail once and succeed later. The cache answers
  with a value or with none and does not reject. The wido service is called through
  \<open>wido.deposit\<close> and \<open>wido.withdraw\<close> as the vault interface does; the partner's
  tracking address is the value that \<open>await partner.address\<close> yields. The signer that
  \<open>getSigner(account)\<close> creates is determined by the account and is not an argument of
  its own.
\<close>

record env =
  isEthereum :: bool
  isFantom :: bool
  adapters :: "nat list"
  WethAddress :: Address
  EthAddress :: Address
  FANTOM_TOKEN_address :: Address
  isNativeToken :: "Address \<Rightarrow> bool"
  PickleJars :: "Address list"
  mergeZapPropsWithAddressables ::
    "VaultMetadataOverrides list \<Rightarrow> Address list \<Rightarrow> string \<Rightarrow> string \<Rightarrow> VaultMetadataOverrides list"
  assetIcon :: "Address \<Rightarrow> string option"
  assetAlias :: "Address \<Rightarrow> string option"
  partner :: "Partner option"
  allowListService :: bool
  cachedFetcherGet :: "history \<Rightarrow> Vault list option"
  cachedFetcherGetDynamic :: "history \<Rightarrow> VaultDynamic list option"
  metaVaults :: "history \<Rightarrow> error + VaultMetadataOverrides list"
  assetsStatic :: "history \<Rightarrow> nat \<Rightarrow> Address list option \<Rightarrow> CallOverrides option \<Rightarrow> error + VaultStatic list"
  assetsDynamic :: "history \<Rightarrow> nat \<Rightarrow> Address list option \<Rightarrow> CallOverrides option \<Rightarrow> error + VaultDynamic list"
  adapterPositionsOf ::
    "history \<Rightarrow> nat \<Rightarrow> Address \<Rightarrow> Address list option \<Rightarrow> CallOverrides option \<Rightarrow> error + Position list"
  visionApy :: "history \<Rightarrow> Address list \<Rightarrow> error + (Address \<Rightarrow> Apy option)"
  zapperSupportedVaultAddresses :: "history \<Rightarrow> error + Address list"
  vaultsStrategiesMetadata :: "history \<Rightarrow> Address list \<Rightarrow> error + VaultStrategiesMetadata list"
  assetsHistoricEarnings :: "history \<Rightarrow> error + AssetHistoricEarnings list"
  tokensAllowance :: "history \<Rightarrow> Address \<Rightarrow> Address \<Rightarrow> Address \<Rightarrow> error + TokenAllowance"
  tokensApprove ::
    "history \<Rightarrow> Address \<Rightarrow> Address \<Rightarrow> Address \<Rightarrow> Integer \<Rightarrow> CallOverrides option \<Rightarrow> error + TransactionResponse"
  addressById :: "history \<Rightarrow> ContractAddressId \<Rightarrow> error + Address"
  widoDeposit :: "history \<Rightarrow> Address \<Rightarrow> Address \<Rightarrow> Integer \<Rightarrow> Address \<Rightarrow> error + TransactionRequest"
  widoWithdraw :: "history \<Rightarrow> Address \<Rightarrow> Address \<Rightarrow> Integer \<Rightarrow> Address \<Rightarrow> error + TransactionRequest"
  zapperZapIn :: "history \<Rightarrow> call \<Rightarrow> error + ZapParams"
  zapperZapOut :: "history \<Rightarrow> call \<Rightarrow> error + ZapParams"
  validateCalldata :: "history \<Rightarrow> Address option \<Rightarrow> string option \<Rightarrow> error + bool \<times> string option"
  signerSendTransaction :: "history \<Rightarrow> TransactionRequest \<Rightarrow> error + TransactionResponse"
  partnerPopulateDepositTransaction ::
    "history \<Rightarrow> Address \<Rightarrow> Integer \<Rightarrow> CallOverrides \<Rightarrow> error + TransactionRequest option"
  contractPopulate :: "history \<Rightarrow> Address \<Rightarrow> string \<Rightarrow> Integer \<Rightarrow> CallOverrides \<Rightarrow> error + TransactionRequest"

section \<open>Asynchronous code as a computation over the invocation log\<close>

text \<open>
  An \<open>async\<close> function takes the log of invocations made so far and returns its result,
  \<open>Inl\<close> for a rejection, with the extended log.
\<close>

type_synonym 'a io = "history \<Rightarrow> (error + 'a) \<times> history"

definition return_io :: "'a \<Rightarrow> 'a io" where
  "return_io x = (\<lambda>h. (Inr x, h))"

definition throw_io :: "error \<Rightarrow> 'a io" where
  "throw_io e = (\<lambda>h. (Inl e, h))"

definition bind_io :: "'a io \<Rightarrow> ('a \<Rightarrow> 'b io) \<Rightarrow> 'b io" where
  "bind_io m f = (\<lambda>h. case m h of (Inl e, h') \<Rightarrow> (Inl e, h') | (Inr x, h') \<Rightarrow> f x h')"

definition catch_io :: "'a io \<Rightarrow> (error \<Rightarrow> 'a io) \<Rightarrow> 'a io" where
  "catch_io m handler = (\<lambda>h. case m h of (Inl e, h') \<Rightarrow> handler e h' | (Inr x, h') \<Rightarrow> (Inr x, h'))"

definition await_call :: "call \<Rightarrow> (history \<Rightarrow> error + 'a) \<Rightarrow> 'a io" where
  "await_call c answer = (\<lambda>h. (answer h, h @ [c]))"

text \<open>
  \<open>Promise.all(xs.map(async f))\<close>: every element is started, also after an earlier one
  has rejected, and the result rejects with a rejection of one of them. The model runs the
  elements in their order of issue and takes the rejection of the earliest element.
\<close>

fun all_io :: "('a \<Rightarrow> 'b io) \<Rightarrow> 'a list \<Rightarrow> 'b list io" where
  "all_io f [] h = (Inr [], h)"
| "all_io f (x # xs) h =
     (case f x h of (r, h') \<Rightarrow>
        (case all_io f xs h' of (rs, h'') \<Rightarrow>
           ((case r of Inl e \<Rightarrow> Inl e
             | Inr y \<Rightarrow> (case rs of Inl e \<Rightarrow> Inl e | Inr ys \<Rightarrow> Inr (y # ys))), h'')))"

section \<open>Listing: static and dynamic records\<close>

text \<open>Modelled from the spec: \<open>chunkArray\<close> of \<open>../helpers\<close> is not part of the sources at
  hand; the specification says that the full address set is split into fixed-size chunks
  and the chunk results are flattened. The chunks are consecutive slices of the given size,
  the last one holding the remainder. A size of zero, which no caller passes, gives no chunk.\<close>

function chunkArray :: "'a list \<Rightarrow> nat \<Rightarrow> 'a list list" where
  "chunkArray xs sz =
     (if sz = 0 \<or> xs = [] then [] else take sz xs # chunkArray (drop sz xs) sz)"
  by pat_completeness auto
termination
  by (relation "measure (\<lambda>(xs, sz). length xs)") auto

definition filterAddresses :: "('a \<Rightarrow> Address) \<Rightarrow> Address list option \<Rightarrow> 'a list \<Rightarrow> 'a list" where
  "filterAddresses addr addresses cached =
     (case addresses of
        Some as \<Rightarrow> filter (\<lambda>vault. addr vault \<in> set as) cached
      | None \<Rightarrow> cached)"

definition getStatic :: "env \<Rightarrow> Address list option \<Rightarrow> CallOverrides option \<Rightarrow> VaultStatic list io" where
  "getStatic env addresses overrides =
     bind_io
       (all_io (\<lambda>adapter. await_call (AssetsStatic adapter addresses overrides)
                  (\<lambda>h. assetsStatic env h adapter addresses overrides))
          (adapters env))
       (\<lambda>arr. return_io (concat arr))"

definition makeEmptyApy :: Apy where
  "makeEmptyApy =
     \<lparr> apy_type = ''manual_override'', apy_gross_apr = 0, apy_net_apy = 0,
       apy_fees = \<lparr> fee_performance = None, fee_withdrawal = None, fee_management = None,
                    fee_keep_crv = None, fee_cvx_keep_crv = None \<rparr>,
       apy_points = None, apy_composite = None \<rparr>"

text \<open>Truthiness of an optional string, an optional number and an optional boolean.\<close>

fun truthyStr :: "string option \<Rightarrow> bool" where
  "truthyStr None = False"
| "truthyStr (Some s) = (s \<noteq> [])"

fun truthyNum :: "rat option \<Rightarrow> bool" where
  "truthyNum None = False"
| "truthyNum (Some n) = (n \<noteq> 0)"

fun truthyBool :: "bool option \<Rightarrow> bool" where
  "truthyBool None = False"
| "truthyBool (Some b) = b"

definition fillMetadataOverrides :: "VaultDynamic \<Rightarrow> VaultMetadataOverrides \<Rightarrow> VaultDynamic" where
  "fillMetadataOverrides dynamic overrides =
     (let m0 = vd_metadata dynamic;
          m1 = (if truthyStr (mo_displayName overrides)
                then m0\<lparr>md_displayName := the (mo_displayName overrides)\<rparr> else m0);
          m2 = (if truthyStr (mo_vaultSymbolOverride overrides)
                then m1\<lparr>md_symbol := the (mo_vaultSymbolOverride overrides)\<rparr> else m1);
          m3 = (if truthyStr (mo_vaultIconOverride overrides)
                then m2\<lparr>md_displayIcon := the (mo_vaultIconOverride overrides)\<rparr> else m2);
          m4 = (if truthyStr (mo_apyTypeOverride overrides)
                then (let apy = (case md_apy m3 of None \<Rightarrow> makeEmptyApy | Some a \<Rightarrow> a)
                      in m3\<lparr>md_apy := Some (apy\<lparr>apy_type := the (mo_apyTypeOverride overrides)\<rparr>)\<rparr>)
                else m3);
          m5 = (if truthyNum (mo_apyOverride overrides)
                then (let apy = (case md_apy m4 of None \<Rightarrow> makeEmptyApy | Some a \<Rightarrow> a)
                      in m4\<lparr>md_apy := Some (apy\<lparr>apy_net_apy := the (mo_apyOverride overrides),
                                                 apy_type := ''override''\<rparr>)\<rparr>)
                else m4);
          m6 = m5\<lparr>md_depositsDisabled := mo_depositsDisabled overrides,
                  md_withdrawalsDisabled := mo_withdrawalsDisabled overrides,
                  md_allowZapIn := mo_allowZapIn overrides,
                  md_allowZapOut := mo_allowZapOut overrides,
                  md_zapInWith := mo_zapInWith overrides,
                  md_zapOutWith := mo_zapOutWith overrides,
                  md_migrationContract := mo_migrationContract overrides,
                  md_migrationTargetVault := mo_migrationTargetVault overrides,
                  md_vaultNameOverride := mo_vaultNameOverride overrides,
                  md_vaultDetailPageAssets := mo_vaultDetailPageAssets overrides\<rparr>;
          m7 = m6\<lparr>md_hideIfNoDeposits :=
                    (md_emergencyShutdown m6 \<or> truthyBool (mo_retired overrides)
                     \<or> truthyBool (mo_migrationAvailable overrides) \<or> False)\<rparr>;
          m8 = m7\<lparr>md_migrationAvailable :=
                    (md_migrationAvailable m7 \<or> truthyBool (mo_migrationAvailable overrides) \<or> False)\<rparr>
      in dynamic\<lparr>vd_metadata := m8\<rparr>)"

text \<open>The callback of \<open>data.map\<close> in \<open>getDynamic\<close>: APY, display properties, overrides.\<close>

definition enrichDynamic ::
  "env \<Rightarrow> VaultMetadataOverrides list \<Rightarrow> (Address \<Rightarrow> Apy option) \<Rightarrow> VaultDynamic \<Rightarrow> VaultDynamic" where
  "enrichDynamic env metadataOverrides assetsApy dynamic =
     (let overrides = find (\<lambda>override. mo_address override = vd_address dynamic) metadataOverrides;
          m0 = (vd_metadata dynamic)\<lparr>md_apy := assetsApy (vd_address dynamic)\<rparr>;
          m1 = (if vd_tokenId dynamic = WethAddress env
                then m0\<lparr>md_displayIcon := (case assetIcon env (EthAddress env) of Some i \<Rightarrow> i | None \<Rightarrow> []),
                        md_displayName := ''ETH'',
                        md_defaultDisplayToken := EthAddress env\<rparr>
                else m0\<lparr>md_displayIcon := (case assetIcon env (vd_tokenId dynamic) of Some i \<Rightarrow> i | None \<Rightarrow> []),
                        md_displayName := (case assetAlias env (vd_tokenId dynamic) of Some s \<Rightarrow> s | None \<Rightarrow> []),
                        md_defaultDisplayToken := vd_tokenId dynamic\<rparr>);
          d1 = dynamic\<lparr>vd_metadata := m1\<rparr>
      in case overrides of Some ov \<Rightarrow> fillMetadataOverrides d1 ov | None \<Rightarrow> d1)"

definition metaVaultsOrEmpty :: "env \<Rightarrow> VaultMetadataOverrides list io" where
  "metaVaultsOrEmpty env =
     catch_io (await_call MetaVaults (metaVaults env)) (\<lambda>error. return_io [])"

definition getDynamic ::
  "env \<Rightarrow> Address list option \<Rightarrow> VaultMetadataOverrides list option \<Rightarrow> CallOverrides option
   \<Rightarrow> VaultDynamic list io" where
  "getDynamic env addresses vaultMetadataOverrides overrides =
     bind_io (await_call CachedFetcherGetDynamic (\<lambda>h. Inr (cachedFetcherGetDynamic env h)))
       (\<lambda>cached. case cached of
          Some c \<Rightarrow> return_io (filterAddresses vd_address addresses c)
        | None \<Rightarrow>
          bind_io (case vaultMetadataOverrides of
                     Some vmo \<Rightarrow> return_io vmo
                   | None \<Rightarrow> metaVaultsOrEmpty env)
            (\<lambda>mo0.
          bind_io (if isEthereum env
                   then bind_io (await_call ZapperSupportedVaultAddresses (zapperSupportedVaultAddresses env))
                          (\<lambda>vaultTokenMarketData. return_io
                             (mergeZapPropsWithAddressables env mo0 vaultTokenMarketData
                                ''zapperZapIn'' ''zapperZapOut''))
                   else return_io mo0)
            (\<lambda>mo1.
          let metadataOverrides =
                (if isFantom env
                 then mergeZapPropsWithAddressables env mo1 [FANTOM_TOKEN_address env] ''ftmApeZap'' ''ftmApeZap''
                 else mo1)
          in bind_io
               (all_io (\<lambda>adapter.
                   bind_io (await_call (AssetsDynamic adapter addresses overrides)
                              (\<lambda>h. assetsDynamic env h adapter addresses overrides))
                     (\<lambda>data.
                   bind_io (await_call (VisionApy (map vd_address data))
                              (\<lambda>h. visionApy env h (map vd_address data)))
                     (\<lambda>assetsApy. return_io (map (enrichDynamic env metadataOverrides assetsApy) data))))
                  (adapters env))
               (\<lambda>arr. return_io (concat arr)))))"

text \<open>Lines 67 to 75 of \<open>get\<close>: the unchunked query, and the chunked one in its \<open>catch\<close>.\<close>

definition getDynamicOrChunked ::
  "env \<Rightarrow> Address list option \<Rightarrow> VaultMetadataOverrides list \<Rightarrow> CallOverrides option
   \<Rightarrow> VaultStatic list \<Rightarrow> VaultDynamic list io" where
  "getDynamicOrChunked env addresses vaultMetadataOverrides overrides assetsStatic' =
     catch_io (getDynamic env addresses (Some vaultMetadataOverrides) overrides)
       (\<lambda>error.
          let allAddresses = map vs_address assetsStatic';
              chunks = chunkArray allAddresses 30
          in bind_io (all_io (\<lambda>chunk. getDynamic env (Some chunk) (Some vaultMetadataOverrides) overrides) chunks)
               (\<lambda>chunks. return_io (concat chunks)))"

text \<open>The callback of \<open>adapters.map\<close> in \<open>positionsOf\<close> (lines 216 to 232).\<close>

definition positionsOfAdapter ::
  "env \<Rightarrow> nat \<Rightarrow> Address \<Rightarrow> Address list option \<Rightarrow> CallOverrides option \<Rightarrow> Position list io" where
  "positionsOfAdapter env adapter address addresses overrides =
     catch_io (await_call (AdapterPositionsOf adapter address addresses overrides)
                 (\<lambda>h. adapterPositionsOf env h adapter address addresses overrides))
       (\<lambda>error.
          bind_io (case addresses of
                     Some as \<Rightarrow> return_io as
                   | None \<Rightarrow> bind_io (getStatic env addresses overrides)
                               (\<lambda>assets. return_io (map vs_address assets)))
            (\<lambda>allAddresses.
          bind_io (all_io (\<lambda>chunk. await_call (AdapterPositionsOf adapter address (Some chunk) overrides)
                                      (\<lambda>h. adapterPositionsOf env h adapter address (Some chunk) overrides))
                     (chunkArray allAddresses 30))
            (\<lambda>chunks. return_io (concat chunks))))"

definition positionsOf ::
  "env \<Rightarrow> Address \<Rightarrow> Address list option \<Rightarrow> CallOverrides option \<Rightarrow> Position list io" where
  "positionsOf env address addresses overrides =
     bind_io (all_io (\<lambda>adapter. positionsOfAdapter env adapter address addresses overrides) (adapters env))
       (\<lambda>arr. return_io (concat arr))"

section \<open>Listing: merging and ordering\<close>

text \<open>
  The JavaScript numbers that the sort keys and their differences can be. A finite number
  is taken as exact: rounding does not change the sign of a difference, which is all the
  sort looks at.
\<close>

datatype number = NaN | NegInfinity | PosInfinity | Finite rat

fun jsMax2 :: "number \<Rightarrow> number \<Rightarrow> number" where
  "jsMax2 NaN y = NaN"
| "jsMax2 x NaN = NaN"
| "jsMax2 PosInfinity y = PosInfinity"
| "jsMax2 x PosInfinity = PosInfinity"
| "jsMax2 NegInfinity y = y"
| "jsMax2 x NegInfinity = x"
| "jsMax2 (Finite a) (Finite b) = Finite (max a b)"

text \<open>\<open>Math.max(...values)\<close>: the largest of the arguments, starting from \<open>-Infinity\<close>.\<close>

definition Math_max :: "number list \<Rightarrow> number" where
  "Math_max values = foldl jsMax2 NegInfinity values"

fun jsMinus :: "number \<Rightarrow> number \<Rightarrow> number" where
  "jsMinus NaN y = NaN"
| "jsMinus x NaN = NaN"
| "jsMinus PosInfinity PosInfinity = NaN"
| "jsMinus PosInfinity y = PosInfinity"
| "jsMinus NegInfinity NegInfinity = NaN"
| "jsMinus NegInfinity y = NegInfinity"
| "jsMinus (Finite a) PosInfinity = NegInfinity"
| "jsMinus (Finite a) NegInfinity = PosInfinity"
| "jsMinus (Finite a) (Finite b) = Finite (a - b)"

text \<open>How \<open>Array.prototype.sort\<close> reads the comparator's result: \<open>NaN\<close> counts as zero.\<close>

fun comparatorSign :: "number \<Rightarrow> int" where
  "comparatorSign NaN = 0"
| "comparatorSign NegInfinity = - 1"
| "comparatorSign PosInfinity = 1"
| "comparatorSign (Finite r) = (if r < 0 then - 1 else if r = 0 then 0 else 1)"

text \<open>
  \<open>Array.prototype.sort\<close> is stable; it is modelled by insertion from the left: an element
  goes in front of the first element that the comparator places after it.
\<close>

fun insertSorted :: "('a \<Rightarrow> 'a \<Rightarrow> number) \<Rightarrow> 'a \<Rightarrow> 'a list \<Rightarrow> 'a list" where
  "insertSorted cmp x [] = [x]"
| "insertSorted cmp x (y # ys) =
     (if comparatorSign (cmp y x) > 0 then x # y # ys else y # insertSorted cmp x ys)"

definition arraySort :: "('a \<Rightarrow> 'a \<Rightarrow> number) \<Rightarrow> 'a list \<Rightarrow> 'a list" where
  "arraySort cmp xs = foldl (\<lambda>sorted x. insertSorted cmp x sorted) [] xs"

text \<open>
  \<open>assetsDynamic.find\<close> returns a reference into the array, and the loop writes through
  it; the reference is the position of the first match.
\<close>

fun findIndex :: "('a \<Rightarrow> bool) \<Rightarrow> 'a list \<Rightarrow> nat option" where
  "findIndex P [] = None"
| "findIndex P (x # xs) = (if P x then Some 0 else map_option Suc (findIndex P xs))"

text \<open>
  The \<open>for\<close> loop of \<open>get\<close> (lines 96 to 114). The state is the array of dynamic records,
  whose metadata the loop updates in place, and the entries pushed so far: the static
  record, the position of its dynamic record and the sort key.
\<close>

fun mergeLoop ::
  "VaultMetadataOverrides list \<Rightarrow> VaultStrategiesMetadata list \<Rightarrow> AssetHistoricEarnings list
   \<Rightarrow> VaultStatic list \<Rightarrow> VaultDynamic list \<Rightarrow> (VaultStatic \<times> nat \<times> number) list
   \<Rightarrow> error + VaultDynamic list \<times> (VaultStatic \<times> nat \<times> number) list" where
  "mergeLoop vmo sm he [] dyn acc = Inr (dyn, acc)"
| "mergeLoop vmo sm he (asset # rest) dyn acc =
     (case findIndex (\<lambda>d. vs_address asset = vd_address d) dyn of
        None \<Rightarrow> Inl (SdkError (''Dynamic asset does not exist for '' @ vs_address asset))
      | Some i \<Rightarrow>
          (let overrides = find (\<lambda>override. mo_address override = vs_address asset) vmo
           in if (case overrides of None \<Rightarrow> False | Some ov \<Rightarrow> truthyBool (mo_hideAlways ov))
              then mergeLoop vmo sm he rest dyn acc
              else
                (let order = (case (case overrides of None \<Rightarrow> None | Some ov \<Rightarrow> mo_order ov) of
                                Some r \<Rightarrow> Finite r
                              | None \<Rightarrow> Math_max []);
                     dynamic = dyn ! i;
                     m = vd_metadata dynamic;
                     m' = m\<lparr>md_displayName :=
                              (if md_displayName m \<noteq> [] then md_displayName m else vs_name asset),
                            md_strategies := find (\<lambda>metadata. sm_vaultAddress metadata = vs_address asset) sm,
                            md_historicEarnings :=
                              map_option he_dayData
                                (find (\<lambda>earnings. he_assetAddress earnings = vs_address asset) he)\<rparr>
                 in mergeLoop vmo sm he rest (dyn[i := dynamic\<lparr>vd_metadata := m'\<rparr>])
                      (acc @ [(asset, i, order)]))))"

text \<open>\<open>{ ...asset, ...dynamic }\<close>\<close>

definition spreadVault :: "VaultStatic \<Rightarrow> VaultDynamic \<Rightarrow> Vault" where
  "spreadVault asset dynamic =
     \<lparr> v_address = vd_address dynamic, v_typeId = vd_typeId dynamic, v_token = vs_token asset,
       v_name = vs_name asset, v_version = vs_version asset, v_symbol = vs_symbol asset,
       v_decimals = vs_decimals asset, v_tokenId = vd_tokenId dynamic,
       v_underlyingTokenBalance = vd_underlyingTokenBalance dynamic,
       v_metadata = vd_metadata dynamic \<rparr>"

text \<open>The loop, then the vaults as they stand once the loop has finished, with their keys.\<close>

definition assetsWithOrder ::
  "VaultMetadataOverrides list \<Rightarrow> VaultStrategiesMetadata list \<Rightarrow> AssetHistoricEarnings list
   \<Rightarrow> VaultStatic list \<Rightarrow> VaultDynamic list \<Rightarrow> error + (Vault \<times> number) list" where
  "assetsWithOrder vmo sm he assetsStatic' assetsDynamic' =
     (case mergeLoop vmo sm he assetsStatic' assetsDynamic' [] of
        Inl e \<Rightarrow> Inl e
      | Inr (dyn, acc) \<Rightarrow> Inr (map (\<lambda>(asset, i, order). (spreadVault asset (dyn ! i), order)) acc))"

text \<open>Lines 94 to 116: the loop, the sort by \<open>lhs.order - rhs.order\<close>, the projection.\<close>

definition mergeAndSort ::
  "VaultMetadataOverrides list \<Rightarrow> VaultStrategiesMetadata list \<Rightarrow> AssetHistoricEarnings list
   \<Rightarrow> VaultStatic list \<Rightarrow> VaultDynamic list \<Rightarrow> error + Vault list" where
  "mergeAndSort vmo sm he assetsStatic' assetsDynamic' =
     (case assetsWithOrder vmo sm he assetsStatic' assetsDynamic' of
        Inl e \<Rightarrow> Inl e
      | Inr aws \<Rightarrow> Inr (map fst (arraySort (\<lambda>lhs rhs. jsMinus (snd lhs) (snd rhs)) aws)))"

text \<open>Lines 57 to 92 of \<open>get\<close>: everything that is fetched once the cache has missed.\<close>

definition getInputs ::
  "env \<Rightarrow> Address list option \<Rightarrow> CallOverrides option
   \<Rightarrow> (VaultMetadataOverrides list \<times> VaultStatic list \<times> VaultDynamic list
       \<times> VaultStrategiesMetadata list \<times> AssetHistoricEarnings list) io" where
  "getInputs env addresses overrides =
     bind_io (metaVaultsOrEmpty env) (\<lambda>vaultMetadataOverrides.
     bind_io (getStatic env addresses overrides) (\<lambda>assetsStatic'.
     bind_io (getDynamicOrChunked env addresses vaultMetadataOverrides overrides assetsStatic')
       (\<lambda>assetsDynamic'.
     bind_io (catch_io (await_call (VaultsStrategiesMetadata (map vd_address assetsDynamic'))
                          (\<lambda>h. vaultsStrategiesMetadata env h (map vd_address assetsDynamic')))
                (\<lambda>error. return_io []))
       (\<lambda>strategiesMetadata.
     bind_io (catch_io (await_call AssetsHistoricEarnings (assetsHistoricEarnings env))
                (\<lambda>error. return_io []))
       (\<lambda>assetsHistoricEarnings'.
     return_io (vaultMetadataOverrides, assetsStatic', assetsDynamic', strategiesMetadata,
                assetsHistoricEarnings'))))))"

definition get :: "env \<Rightarrow> Address list option \<Rightarrow> CallOverrides option \<Rightarrow> Vault list io" where
  "get env addresses overrides =
     bind_io (await_call CachedFetcherGet (\<lambda>h. Inr (cachedFetcherGet env h)))
       (\<lambda>cached. case cached of
          Some c \<Rightarrow> return_io (filterAddresses v_address addresses c)
        | None \<Rightarrow>
          bind_io (getInputs env addresses overrides)
            (\<lambda>(vaultMetadataOverrides, assetsStatic', assetsDynamic', strategiesMetadata,
                assetsHistoricEarnings').
               case mergeAndSort vaultMetadataOverrides strategiesMetadata assetsHistoricEarnings'
                      assetsStatic' assetsDynamic' of
                 Inl e \<Rightarrow> throw_io e
               | Inr vaults \<Rightarrow> return_io vaults))"

section \<open>Route resolution, allowances and approvals\<close>

definition isZappingIntoPickleJar :: "env \<Rightarrow> Address \<Rightarrow> bool" where
  "isZappingIntoPickleJar env vault = (vault \<in> set (PickleJars env))"

definition shouldUsePartnerService :: "env \<Rightarrow> Address \<Rightarrow> bool" where
  "shouldUsePartnerService env vault =
     (case partner env of None \<Rightarrow> False | Some p \<Rightarrow> partner_isAllowed p vault)"

text \<open>\<open>const [vault] = await this.getStatic([vaultAddress])\<close>: reading \<open>token\<close> of the first
  element of an empty result is a \<open>TypeError\<close>.\<close>

definition firstStatic :: "VaultStatic list \<Rightarrow> VaultStatic io" where
  "firstStatic statics =
     (case statics of
        [] \<Rightarrow> throw_io (TypeError ''Cannot read properties of undefined (reading token)'')
      | vault # rest \<Rightarrow> return_io vault)"

definition isUnderlyingToken :: "env \<Rightarrow> Address \<Rightarrow> Address \<Rightarrow> bool io" where
  "isUnderlyingToken env vaultAddress tokenAddress =
     bind_io (getStatic env (Some [vaultAddress]) None) (\<lambda>statics.
     bind_io (firstStatic statics) (\<lambda>vault.
     return_io (vs_token vault = tokenAddress)))"

definition widoRouter :: Address where
  "widoRouter = ''0x7Bbd6348db83C2fb3633Eebb70367E1AEc258764''"

definition getDepositContractAddress :: "env \<Rightarrow> Address \<Rightarrow> Address \<Rightarrow> Address io" where
  "getDepositContractAddress env vaultAddress tokenAddress =
     (if isNativeToken env tokenAddress then return_io vaultAddress
      else
        (let willZapToPickleJar = isZappingIntoPickleJar env vaultAddress
         in bind_io (if \<not> willZapToPickleJar then isUnderlyingToken env vaultAddress tokenAddress
                     else return_io False)
              (\<lambda>willDepositUnderlyingToken.
                 let shouldUsePartner = shouldUsePartnerService env vaultAddress
                 in if willDepositUnderlyingToken \<and> shouldUsePartner
                    then (let partnerTrackingContractAddress =
                                (case partner env of None \<Rightarrow> None | Some p \<Rightarrow> partner_address p)
                          in if \<not> truthyStr partnerTrackingContractAddress
                             then throw_io (SdkError ''Partner Tracking Contract Address not defined'')
                             else return_io (the partnerTrackingContractAddress))
                    else if willDepositUnderlyingToken then return_io vaultAddress
                    else if isFantom env then return_io widoRouter
                    else (let zapContractId = (if willZapToPickleJar then Id_pickleZapIn else Id_zapperZapIn)
                          in await_call (AddressById zapContractId) (\<lambda>h. addressById env h zapContractId)))))"

definition getWithdrawContractAddress :: "env \<Rightarrow> Address \<Rightarrow> Address \<Rightarrow> Address io" where
  "getWithdrawContractAddress env vaultAddress tokenAddress =
     bind_io (isUnderlyingToken env vaultAddress tokenAddress)
       (\<lambda>willWithdrawToUnderlyingToken.
          if willWithdrawToUnderlyingToken then return_io vaultAddress
          else if isFantom env then return_io widoRouter
          else await_call (AddressById Id_zapperZapOut) (\<lambda>h. addressById env h Id_zapperZapOut))"

definition getDepositAllowance :: "env \<Rightarrow> Address \<Rightarrow> Address \<Rightarrow> Address \<Rightarrow> TokenAllowance io" where
  "getDepositAllowance env accountAddress vaultAddress tokenAddress =
     bind_io (getDepositContractAddress env vaultAddress tokenAddress)
       (\<lambda>spenderAddress.
          await_call (TokensAllowance accountAddress tokenAddress spenderAddress)
            (\<lambda>h. tokensAllowance env h accountAddress tokenAddress spenderAddress))"

definition getWithdrawAllowance :: "env \<Rightarrow> Address \<Rightarrow> Address \<Rightarrow> Address \<Rightarrow> TokenAllowance io" where
  "getWithdrawAllowance env accountAddress vaultAddress tokenAddress =
     bind_io (getWithdrawContractAddress env vaultAddress tokenAddress)
       (\<lambda>spenderAddress.
          await_call (TokensAllowance accountAddress vaultAddress spenderAddress)
            (\<lambda>h. tokensAllowance env h accountAddress vaultAddress spenderAddress))"

text \<open>\<open>MaxUint256\<close> of ethers and the decimal \<open>toString\<close> of a \<open>BigNumber\<close>.\<close>

definition MaxUint256 :: int where
  "MaxUint256 = 2 ^ 256 - 1"

function toString :: "int \<Rightarrow> string" where
  "toString n =
     (if n < 0 then CHR ''-'' # toString (- n)
      else if n < 10 then [''0123456789'' ! nat n]
      else toString (n div 10) @ [''0123456789'' ! nat (n mod 10)])"
  by pat_completeness auto
termination
  by (relation "measure (\<lambda>n. if n < 0 then nat (- n) + 1 else nat n)") auto

definition approveDeposit ::
  "env \<Rightarrow> Address \<Rightarrow> Address \<Rightarrow> Address \<Rightarrow> Integer option \<Rightarrow> CallOverrides option
   \<Rightarrow> TransactionResponse io" where
  "approveDeposit env accountAddress vaultAddress tokenAddress amount overrides =
     bind_io (getDepositContractAddress env vaultAddress tokenAddress)
       (\<lambda>spenderAddress.
          let amount' = (case amount of Some a \<Rightarrow> a | None \<Rightarrow> toString MaxUint256)
          in await_call (TokensApprove accountAddress tokenAddress spenderAddress amount' overrides)
               (\<lambda>h. tokensApprove env h accountAddress tokenAddress spenderAddress amount' overrides))"

definition approveWithdraw ::
  "env \<Rightarrow> Address \<Rightarrow> Address \<Rightarrow> Address \<Rightarrow> Integer option \<Rightarrow> CallOverrides option
   \<Rightarrow> TransactionResponse io" where
  "approveWithdraw env accountAddress vaultAddress tokenAddress amount overrides =
     bind_io (getWithdrawContractAddress env vaultAddress tokenAddress)
       (\<lambda>spenderAddress.
          let amount' = (case amount of Some a \<Rightarrow> a | None \<Rightarrow> toString MaxUint256)
          in await_call (TokensApprove accountAddress vaultAddress spenderAddress amount' overrides)
               (\<lambda>h. tokensApprove env h accountAddress vaultAddress spenderAddress amount' overrides))"

section \<open>Transaction submission\<close>

text \<open>\<open>TransactionService\<close>: the allow list is asked first, its verdict is logged and not
  acted upon, then the signer sends.\<close>

definition validateTx :: "env \<Rightarrow> TransactionRequest \<Rightarrow> (bool \<times> string option) io" where
  "validateTx env transaction =
     (if \<not> allowListService env then return_io (True, None)
      else await_call (ValidateCalldata (tx_to transaction) (tx_data transaction))
             (\<lambda>h. validateCalldata env h (tx_to transaction) (tx_data transaction)))"

definition sendTransaction :: "env \<Rightarrow> TransactionRequest \<Rightarrow> TransactionResponse io" where
  "sendTransaction env transaction =
     bind_io (validateTx env transaction)
       (\<lambda>verdict. await_call (SignerSendTransaction transaction)
                     (\<lambda>h. signerSendTransaction env h transaction))"

text \<open>\<open>{ ...transactionRequest, ...overrides }\<close>: a property that the overrides have wins,
  also when it holds \<open>undefined\<close>.\<close>

definition spreadOverrides :: "TransactionRequest \<Rightarrow> CallOverrides \<Rightarrow> TransactionRequest" where
  "spreadOverrides transactionRequest overrides =
     transactionRequest
       \<lparr> tx_from := spreadProperty (ov_from overrides) (tx_from transactionRequest),
         tx_value := spreadProperty (ov_value overrides) (tx_value transactionRequest),
         tx_gasLimit := spreadProperty (ov_gasLimit overrides) (tx_gasLimit transactionRequest),
         tx_gasPrice := spreadProperty (ov_gasPrice overrides) (tx_gasPrice transactionRequest),
         tx_maxFeePerGas := spreadProperty (ov_maxFeePerGas overrides) (tx_maxFeePerGas transactionRequest),
         tx_maxPriorityFeePerGas :=
           spreadProperty (ov_maxPriorityFeePerGas overrides) (tx_maxPriorityFeePerGas transactionRequest),
         tx_nonce := spreadProperty (ov_nonce overrides) (tx_nonce transactionRequest) \<rparr>"

text \<open>\<open>overrides.gasPrice || fallbackGasPrice\<close>\<close>

definition gasPriceOr :: "CallOverrides \<Rightarrow> BigNumberish \<Rightarrow> BigNumberish" where
  "gasPriceOr overrides fallbackGasPrice =
     (case readProperty (ov_gasPrice overrides) of
        Some g \<Rightarrow> (if truthyBN g then g else fallbackGasPrice)
      | None \<Rightarrow> fallbackGasPrice)"

definition executeZapperTransaction ::
  "env \<Rightarrow> TransactionRequest \<Rightarrow> CallOverrides \<Rightarrow> BigNumberish \<Rightarrow> TransactionResponse io" where
  "executeZapperTransaction env transactionRequest overrides fallbackGasPrice =
     catch_io
       (let combinedParams = (spreadOverrides transactionRequest overrides)\<lparr>tx_gasPrice := None\<rparr>
        in sendTransaction env combinedParams)
       (\<lambda>error.
          if errorCode error = Some (- 32602)
          then (let combinedParams =
                      (spreadOverrides transactionRequest overrides)
                        \<lparr> tx_maxFeePerGas := None,
                          tx_maxPriorityFeePerGas := None,
                          tx_gasPrice := Some (gasPriceOr overrides fallbackGasPrice) \<rparr>
                in sendTransaction env combinedParams)
          else throw_io error)"

definition executeVaultContractTransaction ::
  "(CallOverrides \<Rightarrow> TransactionResponse io) \<Rightarrow> CallOverrides \<Rightarrow> TransactionResponse io" where
  "executeVaultContractTransaction makeTransaction overrides =
     (let originalGasPrice = readProperty (ov_gasPrice overrides);
          overrides1 = overrides\<lparr>ov_gasPrice := Undefined\<rparr>
      in catch_io (makeTransaction overrides1)
           (\<lambda>error.
              if errorCode error = Some (- 32602)
              then (let overrides2 = overrides1\<lparr> ov_maxFeePerGas := Undefined,
                                                 ov_maxPriorityFeePerGas := Undefined,
                                                 ov_gasPrice := writeProperty originalGasPrice \<rparr>
                    in makeTransaction overrides2)
              else throw_io error))"

definition populateDepositTransaction ::
  "env \<Rightarrow> Address \<Rightarrow> Integer \<Rightarrow> CallOverrides \<Rightarrow> TransactionRequest option io" where
  "populateDepositTransaction env vault amount overrides =
     (if shouldUsePartnerService env vault
      then await_call (PartnerPopulateDeposit vault amount overrides)
             (\<lambda>h. partnerPopulateDepositTransaction env h vault amount overrides)
      else bind_io (await_call (ContractPopulate vault ''deposit'' amount overrides)
                      (\<lambda>h. contractPopulate env h vault ''deposit'' amount overrides))
             (\<lambda>tx. return_io (Some tx)))"

definition zapIn ::
  "env \<Rightarrow> Address \<Rightarrow> Address \<Rightarrow> Integer \<Rightarrow> Address \<Rightarrow> DepositOptions \<Rightarrow> ZapProtocol \<Rightarrow> CallOverrides
   \<Rightarrow> TransactionResponse io" where
  "zapIn env vault token amount account options zapProtocol overrides =
     (case dep_slippage options of
        None \<Rightarrow> throw_io (SdkError ''zap operations should have a slippage set'')
      | Some slippage \<Rightarrow>
          if isFantom env
          then bind_io (await_call (WidoDeposit account token amount vault)
                          (\<lambda>h. widoDeposit env h account token amount vault))
                 (\<lambda>populatedTransaction. sendTransaction env populatedTransaction)
          else
            (let request = ZapperZapIn account token amount vault ''0'' slippage False zapProtocol
                             (map_option partner_partnerId (partner env))
             in bind_io (await_call request (\<lambda>h. zapperZapIn env h request))
                  (\<lambda>zapInParams.
                     let transactionRequest =
                           \<lparr> tx_to = Some (zp_to zapInParams),
                             tx_from = Some (zp_from zapInParams),
                             tx_data = Some (zp_data zapInParams),
                             tx_value = Some (BigNumber (zp_value zapInParams)),
                             tx_gasLimit = Some (BigNumber (zp_gas zapInParams)),
                             tx_gasPrice = None,
                             tx_maxFeePerGas = None,
                             tx_maxPriorityFeePerGas = None,
                             tx_nonce = None \<rparr>
                     in executeZapperTransaction env transactionRequest overrides
                          (BigNumber (zp_gasPrice zapInParams)))))"

definition deposit ::
  "env \<Rightarrow> Address \<Rightarrow> Address \<Rightarrow> Integer \<Rightarrow> Address \<Rightarrow> DepositOptions \<Rightarrow> CallOverrides
   \<Rightarrow> TransactionResponse io" where
  "deposit env vault token amount account options overrides =
     (if isZappingIntoPickleJar env vault
      then zapIn env vault token amount account options PICKLE overrides
      else
        bind_io (getStatic env (Some [vault]) (Some overrides)) (\<lambda>statics.
        bind_io (firstStatic statics) (\<lambda>vaultRef.
          if vs_token vaultRef \<noteq> token
          then zapIn env vault token amount account options YEARN overrides
          else executeVaultContractTransaction
                 (\<lambda>overrides.
                    bind_io (populateDepositTransaction env vault amount overrides)
                      (\<lambda>populatedTransaction.
                         case populatedTransaction of
                           None \<Rightarrow> throw_io (SdkError ''deposit transaction failed'')
                         | Some tx \<Rightarrow> sendTransaction env tx))
                 overrides)))"

definition withdraw ::
  "env \<Rightarrow> Address \<Rightarrow> Address \<Rightarrow> Integer \<Rightarrow> Address \<Rightarrow> WithdrawOptions \<Rightarrow> CallOverrides
   \<Rightarrow> TransactionResponse io" where
  "withdraw env vault token amount account options overrides =
     bind_io (getStatic env (Some [vault]) (Some overrides)) (\<lambda>statics.
     bind_io (firstStatic statics) (\<lambda>vaultRef.
       if vs_token vaultRef = token
       then executeVaultContractTransaction
              (\<lambda>overrides.
                 bind_io (await_call (ContractPopulate vault ''withdraw'' amount overrides)
                            (\<lambda>h. contractPopulate env h vault ''withdraw'' amount overrides))
                   (\<lambda>tx. sendTransaction env tx))
              overrides
       else
         (case wd_slippage options of
            None \<Rightarrow> throw_io (SdkError ''zap operations should have a slippage set'')
          | Some slippage \<Rightarrow>
              if isFantom env
              then bind_io (await_call (WidoWithdraw account token amount vault)
                              (\<lambda>h. widoWithdraw env h account token amount vault))
                     (\<lambda>populatedTransaction. sendTransaction env populatedTransaction)
              else
                (let request = ZapperZapOut account token amount vault ''0'' slippage False
                                 (wd_signature options)
                 in bind_io (await_call request (\<lambda>h. zapperZapOut env h request))
                      (\<lambda>zapOutParams.
                         let transactionRequest =
                               \<lparr> tx_to = Some (zp_to zapOutParams),
                                 tx_from = Some (zp_from zapOutParams),
                                 tx_data = Some (zp_data zapOutParams),
                                 tx_value = Some (BigNumber (zp_value zapOutParams)),
                                 tx_gasLimit = Some (BigNumber (zp_gas zapOutParams)),
                                 tx_gasPrice = Some (BigNumber (zp_gasPrice zapOutParams)),
                                 tx_maxFeePerGas = None,
                                 tx_maxPriorityFeePerGas = None,
                                 tx_nonce = None \<rparr>
                         in executeZapperTransaction env transactionRequest overrides
                              (BigNumber (zp_gasPrice zapOutParams)))))))"

section \<open>A concrete SDK instance\<close>

text \<open>
  A small instance on which the functions are evaluated: one adapter, three vaults
  (\<open>vaultA\<close> and \<open>vaultB\<close> over \<open>DAI\<close>, the pickle jar \<open>jar\<close> over \<open>WETH\<close>), a partner that
  is allowed everywhere, and collaborators that always succeed. The adapter answers an
  address filter with the records of these addresses, in the order asked.
\<close>

definition demoStatic :: "Address \<Rightarrow> VaultStatic" where
  "demoStatic a =
     \<lparr> vs_address = a, vs_typeId = ''VAULT_V2'', vs_token = (if a = ''jar'' then ''WETH'' else ''DAI''),
       vs_name = a @ '' vault'', vs_version = ''0.4.3'', vs_symbol = ''yv'' @ a,
       vs_decimals = ''18'' \<rparr>"

definition demoMetadata :: VaultMetadata where
  "demoMetadata =
     \<lparr> md_symbol = ''yv'', md_migrationAvailable = False, md_emergencyShutdown = False,
       md_apy = None, md_displayName = [], md_displayIcon = [], md_defaultDisplayToken = [],
       md_strategies = None, md_historicEarnings = None, md_depositsDisabled = None,
       md_withdrawalsDisabled = None, md_allowZapIn = Some True, md_allowZapOut = None,
       md_zapInWith = None, md_zapOutWith = None, md_migrationContract = None,
       md_migrationTargetVault = None, md_vaultNameOverride = None,
       md_vaultDetailPageAssets = None, md_hideIfNoDeposits = False \<rparr>"

definition demoDynamic :: "Address \<Rightarrow> VaultDynamic" where
  "demoDynamic a =
     \<lparr> vd_address = a, vd_typeId = ''VAULT_V2'', vd_tokenId = (if a = ''jar'' then ''WETH'' else ''DAI''),
       vd_underlyingTokenBalance = (''0'', ''0''), vd_metadata = demoMetadata \<rparr>"

definition demoOverride :: "Address \<Rightarrow> VaultMetadataOverrides" where
  "demoOverride a =
     \<lparr> mo_address = a, mo_hideAlways = None, mo_order = None, mo_displayName = None,
       mo_vaultSymbolOverride = None, mo_vaultIconOverride = None, mo_apyTypeOverride = None,
       mo_apyOverride = None, mo_depositsDisabled = None, mo_withdrawalsDisabled = None,
       mo_allowZapIn = None, mo_allowZapOut = None, mo_zapInWith = None, mo_zapOutWith = None,
       mo_migrationContract = None, mo_migrationTargetVault = None, mo_vaultNameOverride = None,
       mo_vaultDetailPageAssets = None, mo_retired = None, mo_migrationAvailable = None \<rparr>"

definition demoAddresses :: "Address list" where
  "demoAddresses = [''vaultA'', ''vaultB'', ''jar'']"

definition noOverrides :: CallOverrides where
  "noOverrides =
     \<lparr> ov_from = Absent, ov_value = Absent, ov_gasLimit = Absent, ov_gasPrice = Absent,
       ov_maxFeePerGas = Absent, ov_maxPriorityFeePerGas = Absent, ov_nonce = Absent \<rparr>"

definition demoTransaction :: "Address \<Rightarrow> string \<Rightarrow> TransactionRequest" where
  "demoTransaction target calldata =
     \<lparr> tx_to = Some target, tx_from = None, tx_data = Some calldata, tx_value = None,
       tx_gasLimit = None, tx_gasPrice = Some (BigNumber 7), tx_maxFeePerGas = None,
       tx_maxPriorityFeePerGas = None, tx_nonce = None \<rparr>"

definition demoZapParams :: "Address \<Rightarrow> ZapParams" where
  "demoZapParams target =
     \<lparr> zp_to = target, zp_from = ''account'', zp_data = ''0xzap'', zp_value = 0, zp_gas = 21000,
       zp_gasPrice = 5 \<rparr>"

definition demoEnv :: env where
  "demoEnv =
     \<lparr> isEthereum = True, isFantom = False, adapters = [0],
       WethAddress = ''WETH'', EthAddress = ''ETH'', FANTOM_TOKEN_address = ''WFTM'',
       isNativeToken = (\<lambda>a. a = ''ETH''),
       PickleJars = [''jar''],
       mergeZapPropsWithAddressables = (\<lambda>addressables supported zapInType zapOutType. addressables),
       assetIcon = (\<lambda>a. None), assetAlias = (\<lambda>a. None),
       partner = Some \<lparr> partner_isAllowed = (\<lambda>v. True), partner_address = Some ''partnerTracker'',
                        partner_partnerId = ''partner'' \<rparr>,
       allowListService = True,
       cachedFetcherGet = (\<lambda>h. None), cachedFetcherGetDynamic = (\<lambda>h. None),
       metaVaults = (\<lambda>h. Inr []),
       assetsStatic = (\<lambda>h adapter addresses overrides.
          Inr (map demoStatic (case addresses of None \<Rightarrow> demoAddresses | Some as \<Rightarrow> as))),
       assetsDynamic = (\<lambda>h adapter addresses overrides.
          Inr (map demoDynamic (case addresses of None \<Rightarrow> demoAddresses | Some as \<Rightarrow> as))),
       adapterPositionsOf = (\<lambda>h adapter address addresses overrides. Inr []),
       visionApy = (\<lambda>h addresses. Inr (\<lambda>a. None)),
       zapperSupportedVaultAddresses = (\<lambda>h. Inr []),
       vaultsStrategiesMetadata = (\<lambda>h addresses. Inr []),
       assetsHistoricEarnings = (\<lambda>h. Inr []),
       tokensAllowance = (\<lambda>h owner token spender.
          Inr \<lparr> ta_owner = owner, ta_token = token, ta_spender = spender, ta_amount = ''0'' \<rparr>),
       tokensApprove = (\<lambda>h owner token spender amount overrides. Inr \<lparr> tr_hash = ''0xapprove'' \<rparr>),
       addressById = (\<lambda>h contractId.
          Inr (case contractId of Id_pickleZapIn \<Rightarrow> ''pickleZapInContract''
               | Id_zapperZapIn \<Rightarrow> ''zapInContract'' | Id_zapperZapOut \<Rightarrow> ''zapOutContract'')),
       widoDeposit = (\<lambda>h account token amount vault. Inr (demoTransaction widoRouter ''0xwido'')),
       widoWithdraw = (\<lambda>h account token amount vault. Inr (demoTransaction widoRouter ''0xwido'')),
       zapperZapIn = (\<lambda>h request. Inr (demoZapParams ''zapInContract'')),
       zapperZapOut = (\<lambda>h request. Inr (demoZapParams ''zapOutContract'')),
       validateCalldata = (\<lambda>h target calldata. Inr (True, None)),
       signerSendTransaction = (\<lambda>h transaction. Inr \<lparr> tr_hash = ''0xsent'' \<rparr>),
       partnerPopulateDepositTransaction = (\<lambda>h vault amount overrides.
          Inr (Some (demoTransaction ''partnerTracker'' ''0xdeposit''))),
       contractPopulate = (\<lambda>h vault method amount overrides.
          Inr (spreadOverrides ((demoTransaction vault method)\<lparr>tx_gasPrice := None\<rparr>) overrides)) \<rparr>"

text \<open>The node rejects every send as unsupported, with the code that triggers the fallback.\<close>

definition unsupportedNode :: "history \<Rightarrow> TransactionRequest \<Rightarrow> error + TransactionResponse" where
  "unsupportedNode h transaction = Inl (External (Some (- 32602)) ''invalid params'')"

text \<open>The node rejects the first send only.\<close>

definition unsupportedOnce :: "history \<Rightarrow> TransactionRequest \<Rightarrow> error + TransactionResponse" where
  "unsupportedOnce h transaction =
     (if list_ex (\<lambda>c. case c of SignerSendTransaction t \<Rightarrow> True | _ \<Rightarrow> False) h
      then Inr \<lparr> tr_hash = ''0xsent'' \<rparr>
      else Inl (External (Some (- 32602)) ''invalid params''))"

text \<open>An adapter whose dynamic query fails unless it is asked for at most thirty addresses.\<close>

definition smallQueriesOnly ::
  "history \<Rightarrow> nat \<Rightarrow> Address list option \<Rightarrow> CallOverrides option \<Rightarrow> error + VaultDynamic list" where
  "smallQueriesOnly h adapter addresses overrides =
     (case addresses of
        None \<Rightarrow> Inl (External None ''call size limit'')
      | Some as \<Rightarrow> if length as \<le> 30 then Inr (map demoDynamic as)
                   else Inl (External None ''call size limit''))"

section \<open>Observations on the invocation log\<close>

text \<open>The tokens whose allowance was read, the transactions handed to the signer and the
  address filters of the dynamic queries, in the order of the log.\<close>

fun allowanceToken :: "call \<Rightarrow> Address option" where
  "allowanceToken (TokensAllowance owner token spender) = Some token"
| "allowanceToken c = None"

definition allowanceTokens :: "history \<Rightarrow> Address list" where
  "allowanceTokens h = List.map_filter allowanceToken h"

fun sentTransaction :: "call \<Rightarrow> TransactionRequest option" where
  "sentTransaction (SignerSendTransaction transaction) = Some transaction"
| "sentTransaction c = None"

definition sentTransactions :: "history \<Rightarrow> TransactionRequest list" where
  "sentTransactions h = List.map_filter sentTransaction h"

fun dynamicQuery :: "call \<Rightarrow> Address list option option" where
  "dynamicQuery (AssetsDynamic adapter addresses overrides) = Some addresses"
| "dynamicQuery c = None"

definition dynamicQueries :: "history \<Rightarrow> Address list option list" where
  "dynamicQueries h = List.map_filter dynamicQuery h"

section \<open>Further instances\<close>

text \<open>The same instance on the chain whose zaps go through the wido router, with a node
  that does not support the fee parameters.\<close>

definition fantomEnv :: env where
  "fantomEnv = demoEnv \<lparr> isEthereum := False, isFantom := True,
                          signerSendTransaction := unsupportedNode \<rparr>"

text \<open>Overrides of a caller who gives a legacy gas price and a fee cap, and whose object has
  a \<open>gasLimit\<close> property holding \<open>undefined\<close>.\<close>

definition callerOverrides :: CallOverrides where
  "callerOverrides =
     noOverrides \<lparr> ov_gasLimit := Undefined, ov_gasPrice := Defined (Number 3),
                   ov_maxFeePerGas := Defined (Number 9) \<rparr>"

definition retryEnv :: env where
  "retryEnv = demoEnv \<lparr> signerSendTransaction := unsupportedOnce \<rparr>"

definition demoSlippage :: WithdrawOptions where
  "demoSlippage = \<lparr> wd_slippage = Some (1 / 100), wd_signature = None \<rparr>"

definition demoDepositSlippage :: DepositOptions where
  "demoDepositSlippage = \<lparr> dep_slippage = Some (1 / 100) \<rparr>"

text \<open>An instance whose dynamic query answers with the record of \<open>vaultA\<close> only.\<close>

definition missingDynamicEnv :: env where
  "missingDynamicEnv =
     demoEnv \<lparr> assetsDynamic := (\<lambda>h adapter addresses overrides. Inr [demoDynamic ''vaultA'']) \<rparr>"

text \<open>The same, with a metadata override that hides \<open>vaultB\<close>.\<close>

definition hiddenMissingEnv :: env where
  "hiddenMissingEnv =
     missingDynamicEnv
       \<lparr> metaVaults := (\<lambda>h. Inr [(demoOverride ''vaultB'') \<lparr> mo_hideAlways := Some True \<rparr>]) \<rparr>"

text \<open>An instance whose metadata gives \<open>vaultB\<close> the explicit order 1 and the other vaults
  none.\<close>

definition orderedEnv :: env where
  "orderedEnv =
     demoEnv \<lparr> metaVaults := (\<lambda>h. Inr [(demoOverride ''vaultB'') \<lparr> mo_order := Some 1 \<rparr>]) \<rparr>"

text \<open>An instance with 61 vaults, named \<open>0\<close> to \<open>60\<close>, whose adapter rejects a dynamic query
  and a positions query for all vaults or for more than thirty addresses.\<close>

definition manyAddresses :: "Address list" where
  "manyAddresses = map (\<lambda>n. toString (int n)) [0..<61]"

definition demoPosition :: "Address \<Rightarrow> Position" where
  "demoPosition a =
     \<lparr> pos_assetAddress = a, pos_tokenAddress = ''DAI'', pos_typeId = ''DEPOSIT'',
       pos_balance = ''1'' \<rparr>"

definition smallPositionQueriesOnly ::
  "history \<Rightarrow> nat \<Rightarrow> Address \<Rightarrow> Address list option \<Rightarrow> CallOverrides option
   \<Rightarrow> error + Position list" where
  "smallPositionQueriesOnly h adapter account addresses overrides =
     (case addresses of
        None \<Rightarrow> Inl (External None ''call size limit'')
      | Some as \<Rightarrow> if length as \<le> 30 then Inr (map demoPosition as)
                   else Inl (External None ''call size limit''))"

definition chunkedEnv :: env where
  "chunkedEnv =
     demoEnv \<lparr> assetsStatic := (\<lambda>h adapter addresses overrides. Inr (map demoStatic manyAddresses)),
               assetsDynamic := smallQueriesOnly,
               adapterPositionsOf := smallPositionQueriesOnly \<rparr>"

section \<open>Basic facts about the invocation log\<close>

declare toString.simps [simp del]
declare chunkArray.simps [simp del]

lemmas io_defs = bind_io_def return_io_def throw_io_def catch_io_def await_call_def

lemma all_io_await_log:
  "snd (all_io (\<lambda>a. await_call (c a) (answer a)) xs h) = h @ map c xs"
  by (induction xs arbitrary: h) (simp_all add: await_call_def case_prod_beta)

lemma getStatic_log:
  "snd (getStatic env addresses overrides h) =
     h @ map (\<lambda>adapter. AssetsStatic adapter addresses overrides) (adapters env)"
proof -
  have "snd (getStatic env addresses overrides h) =
        snd (all_io (\<lambda>adapter. await_call (AssetsStatic adapter addresses overrides)
                  (\<lambda>h. assetsStatic env h adapter addresses overrides)) (adapters env) h)"
    by (simp add: getStatic_def bind_io_def return_io_def split: prod.splits sum.splits)
  then show ?thesis by (simp add: all_io_await_log)
qed

lemma map_filter_append:
  "List.map_filter f (xs @ ys) = List.map_filter f xs @ List.map_filter f ys"
  by (simp add: List.map_filter_def)

lemma allowanceTokens_statics:
  "allowanceTokens (h @ map (\<lambda>adapter. AssetsStatic adapter a ov) xs) = allowanceTokens h"
  by (induction xs) (simp_all add: allowanceTokens_def List.map_filter_def)

lemma isUnderlyingToken_log:
  "snd (isUnderlyingToken env v t h) =
     h @ map (\<lambda>adapter. AssetsStatic adapter (Some [v]) None) (adapters env)"
  using getStatic_log [of env "Some [v]" None h]
  by (cases "getStatic env (Some [v]) None h")
     (auto simp: isUnderlyingToken_def firstStatic_def io_defs split: sum.splits list.splits)

lemma getWithdrawContractAddress_allowanceTokens:
  "allowanceTokens (snd (getWithdrawContractAddress env v t h)) = allowanceTokens h"
  using isUnderlyingToken_log [of env v t h]
  by (cases "isUnderlyingToken env v t h")
     (auto simp: getWithdrawContractAddress_def io_defs allowanceTokens_statics
           allowanceTokens_def List.map_filter_def split: sum.splits)

lemma demo_getStatic:
  "getStatic demoEnv (Some as) ov h = (Inr (map demoStatic as), h @ [AssetsStatic 0 (Some as) ov])"
  by (simp add: getStatic_def demoEnv_def io_defs)

section \<open>Withdraw without slippage\<close>

text \<open>
  C2, as stated, at a concrete request: the token is not the underlying token of the
  vault and no slippage is given. The call fails with the missing-slippage error, but the
  registry adapter has been queried by then: \<open>withdraw\<close> fetches the static record of the
  vault first, to compare its token with the requested one.
\<close>

theorem withdraw_queries_adapter_before_slippage_error:
  "withdraw demoEnv ''vaultA'' ''USDC'' ''1'' ''account''
      \<lparr> wd_slippage = None, wd_signature = None \<rparr> noOverrides [] =
     (Inl (SdkError ''zap operations should have a slippage set''),
      [AssetsStatic 0 (Some [''vaultA'']) (Some noOverrides)])"
  by (simp add: withdraw_def demo_getStatic bind_io_def return_io_def throw_io_def
        firstStatic_def demoStatic_def)

text \<open>
  C2, amended: when the static lookup of the vault succeeds, the token is not the vault's
  underlying token and the options carry no slippage, \<open>withdraw\<close> fails with the
  missing-slippage error, and the only collaborator invocations made are the static query
  of each registry adapter: no quote, zap, populate, allow-list or send call is issued.
\<close>

theorem withdraw_missing_slippage:
  assumes "fst (getStatic env (Some [vault]) (Some overrides) h) = Inr (vaultRef # rest)"
    and "vs_token vaultRef \<noteq> token"
    and "wd_slippage options = None"
  shows "withdraw env vault token amount account options overrides h =
           (Inl (SdkError ''zap operations should have a slippage set''),
            h @ map (\<lambda>adapter. AssetsStatic adapter (Some [vault]) (Some overrides)) (adapters env))"
proof -
  obtain r h' where run: "getStatic env (Some [vault]) (Some overrides) h = (r, h')"
    by (cases "getStatic env (Some [vault]) (Some overrides) h")
  from run assms(1) have r: "r = Inr (vaultRef # rest)" by simp
  from run getStatic_log [of env "Some [vault]" "Some overrides" h]
  have h': "h' = h @ map (\<lambda>adapter. AssetsStatic adapter (Some [vault]) (Some overrides)) (adapters env)"
    by simp
  show ?thesis
    using run r h' assms(2,3)
    by (simp add: withdraw_def bind_io_def firstStatic_def return_io_def throw_io_def)
qed

theorem withdraw_missing_slippage_witness:
  "fst (getStatic demoEnv (Some [''vaultA'']) (Some noOverrides) []) = Inr (demoStatic ''vaultA'' # [])
   \<and> vs_token (demoStatic ''vaultA'') \<noteq> ''USDC''
   \<and> wd_slippage \<lparr> wd_slippage = None, wd_signature = None \<rparr> = None
   \<and> withdraw demoEnv ''vaultA'' ''USDC'' ''1'' ''account''
        \<lparr> wd_slippage = None, wd_signature = None \<rparr> noOverrides [] =
       (Inl (SdkError ''zap operations should have a slippage set''),
        [] @ map (\<lambda>adapter. AssetsStatic adapter (Some [''vaultA'']) (Some noOverrides))
               (adapters demoEnv))"
proof -
  have a: "fst (getStatic demoEnv (Some [''vaultA'']) (Some noOverrides) []) =
             Inr (demoStatic ''vaultA'' # [])"
    by (simp add: demo_getStatic)
  have b: "vs_token (demoStatic ''vaultA'') \<noteq> ''USDC''"
    by (simp add: demoStatic_def)
  have c: "wd_slippage \<lparr> wd_slippage = None, wd_signature = None \<rparr> = None"
    by simp
  from withdraw_missing_slippage
         [where amount = "''1''" and account = "''account''", OF a b c] a b c
  show ?thesis by blast
qed

section \<open>Allowances and approvals\<close>

text \<open>
  C9: \<open>getWithdrawAllowance(account, vault, token)\<close> resolves the withdraw spender from the
  vault and the token, and reads the allowance of the vault share token, that is of the
  vault address, granted by the account to that spender. The token parameter reaches the
  spender resolution only: the one allowance read that the call adds to the log is that of
  the vault address.
\<close>

theorem getWithdrawAllowance_reads_vault_share:
  "getWithdrawAllowance env account vault token h =
     (case getWithdrawContractAddress env vault token h of
        (Inl e, h') \<Rightarrow> (Inl e, h')
      | (Inr spender, h') \<Rightarrow>
          (tokensAllowance env h' account vault spender,
           h' @ [TokensAllowance account vault spender]))
   \<and> set (allowanceTokens (snd (getWithdrawAllowance env account vault token h)))
       \<subseteq> set (allowanceTokens h) \<union> {vault}"
proof -
  have eq: "getWithdrawAllowance env account vault token h =
     (case getWithdrawContractAddress env vault token h of
        (Inl e, h') \<Rightarrow> (Inl e, h')
      | (Inr spender, h') \<Rightarrow>
          (tokensAllowance env h' account vault spender,
           h' @ [TokensAllowance account vault spender]))"
    by (simp add: getWithdrawAllowance_def io_defs split: prod.splits sum.splits)
  obtain r h' where run: "getWithdrawContractAddress env vault token h = (r, h')"
    by (cases "getWithdrawContractAddress env vault token h")
  with getWithdrawContractAddress_allowanceTokens [of env vault token h]
  have "allowanceTokens h' = allowanceTokens h" by simp
  then have "set (allowanceTokens (snd (getWithdrawAllowance env account vault token h)))
       \<subseteq> set (allowanceTokens h) \<union> {vault}"
    using run by (cases r) (auto simp: eq allowanceTokens_def map_filter_append List.map_filter_def)
  with eq show ?thesis by blast
qed

text \<open>
  C8: with the amount omitted, \<open>approveDeposit\<close> and \<open>approveWithdraw\<close> hand the decimal
  string of \<open>MaxUint256\<close>, which is \<open>2 ^ 256 - 1\<close>, to the approval of the token interface,
  once the spender has been resolved.
\<close>

theorem approve_defaults_to_MaxUint256:
  "approveDeposit env account vault token None overrides h =
     (case getDepositContractAddress env vault token h of
        (Inl e, h') \<Rightarrow> (Inl e, h')
      | (Inr spender, h') \<Rightarrow>
          (tokensApprove env h' account token spender (toString MaxUint256) overrides,
           h' @ [TokensApprove account token spender (toString MaxUint256) overrides]))
   \<and> approveWithdraw env account vault token None overrides h =
     (case getWithdrawContractAddress env vault token h of
        (Inl e, h') \<Rightarrow> (Inl e, h')
      | (Inr spender, h') \<Rightarrow>
          (tokensApprove env h' account vault spender (toString MaxUint256) overrides,
           h' @ [TokensApprove account vault spender (toString MaxUint256) overrides]))
   \<and> toString MaxUint256 =
       ''115792089237316195423570985008687907853269984665640564039457584007913129639935''
   \<and> MaxUint256 = 2 ^ 256 - 1"
proof -
  have lit: "toString MaxUint256 =
       ''115792089237316195423570985008687907853269984665640564039457584007913129639935''"
    by code_simp
  have dep: "approveDeposit env account vault token None overrides h =
     (case getDepositContractAddress env vault token h of
        (Inl e, h') \<Rightarrow> (Inl e, h')
      | (Inr spender, h') \<Rightarrow>
          (tokensApprove env h' account token spender (toString MaxUint256) overrides,
           h' @ [TokensApprove account token spender (toString MaxUint256) overrides]))"
    by (simp add: approveDeposit_def io_defs Let_def split: prod.splits sum.splits)
  have wd: "approveWithdraw env account vault token None overrides h =
     (case getWithdrawContractAddress env vault token h of
        (Inl e, h') \<Rightarrow> (Inl e, h')
      | (Inr spender, h') \<Rightarrow>
          (tokensApprove env h' account vault spender (toString MaxUint256) overrides,
           h' @ [TokensApprove account vault spender (toString MaxUint256) overrides]))"
    by (simp add: approveWithdraw_def io_defs Let_def split: prod.splits sum.splits)
  from lit dep wd MaxUint256_def show ?thesis by blast
qed

section \<open>Deposit routes\<close>

lemmas demo_run_defs =
  demoEnv_def demoZapParams_def demoTransaction_def demoStatic_def noOverrides_def
  spreadOverrides_def gasPriceOr_def sendTransaction_def validateTx_def
  executeZapperTransaction_def executeVaultContractTransaction_def zapIn_def
  populateDepositTransaction_def shouldUsePartnerService_def isZappingIntoPickleJar_def
  firstStatic_def getStatic_def

text \<open>
  C1, as stated, at a concrete deposit: the native asset into the vault \<open>jar\<close>, which is in
  the pickle-jar set, by an account that is partner-eligible. \<open>getDepositContractAddress\<close>
  answers with the vault, but \<open>deposit\<close> asks the zapper for a pickle zap-in and sends the
  transaction to the zap contract; the vault contract is not called.
\<close>

theorem native_deposit_into_jar_is_zapped:
  "isNativeToken demoEnv ''ETH''
   \<and> isZappingIntoPickleJar demoEnv ''jar''
   \<and> shouldUsePartnerService demoEnv ''jar''
   \<and> getDepositContractAddress demoEnv ''jar'' ''ETH'' [] = (Inr ''jar'', [])
   \<and> deposit demoEnv ''jar'' ''ETH'' ''1'' ''account'' demoDepositSlippage noOverrides [] =
       (Inr \<lparr> tr_hash = ''0xsent'' \<rparr>,
        [ZapperZapIn ''account'' ''ETH'' ''1'' ''jar'' ''0'' (1 / 100) False PICKLE (Some ''partner''),
         ValidateCalldata (Some ''zapInContract'') (Some ''0xzap''),
         SignerSendTransaction
           \<lparr> tx_to = Some ''zapInContract'', tx_from = Some ''account'', tx_data = Some ''0xzap'',
             tx_value = Some (BigNumber 0), tx_gasLimit = Some (BigNumber 21000),
             tx_gasPrice = None, tx_maxFeePerGas = None, tx_maxPriorityFeePerGas = None,
             tx_nonce = None \<rparr>])"
  by (simp add: deposit_def getDepositContractAddress_def demoDepositSlippage_def
        demo_run_defs io_defs)

text \<open>
  C1, amended: \<open>getDepositContractAddress\<close> resolves a deposit of the native asset to the
  vault address for every vault and account, without any lookup. \<open>deposit\<close> does not test
  for the native asset: for a vault of the pickle-jar set it takes the zap-in route with the
  pickle protocol whatever the token is; for any other vault it takes the zap-in route with
  the yearn protocol when the token differs from the vault's underlying token, and the
  vault (or partner) transaction only when the token is the underlying token.
\<close>

theorem deposit_routes:
  "(isNativeToken env token \<longrightarrow>
      getDepositContractAddress env vault token h = (Inr vault, h))
   \<and> (isZappingIntoPickleJar env vault \<longrightarrow>
      deposit env vault token amount account options overrides h =
        zapIn env vault token amount account options PICKLE overrides h)
   \<and> (\<not> isZappingIntoPickleJar env vault \<longrightarrow>
      getStatic env (Some [vault]) (Some overrides) h = (Inr (vaultRef # rest), h') \<longrightarrow>
      vs_token vaultRef \<noteq> token \<longrightarrow>
      deposit env vault token amount account options overrides h =
        zapIn env vault token amount account options YEARN overrides h')
   \<and> (\<not> isZappingIntoPickleJar env vault \<longrightarrow>
      getStatic env (Some [vault]) (Some overrides) h = (Inr (vaultRef # rest), h') \<longrightarrow>
      vs_token vaultRef = token \<longrightarrow>
      deposit env vault token amount account options overrides h =
        executeVaultContractTransaction
          (\<lambda>overrides.
             bind_io (populateDepositTransaction env vault amount overrides)
               (\<lambda>populatedTransaction.
                  case populatedTransaction of
                    None \<Rightarrow> throw_io (SdkError ''deposit transaction failed'')
                  | Some tx \<Rightarrow> sendTransaction env tx))
          overrides h')"
  by (simp add: deposit_def getDepositContractAddress_def firstStatic_def
        bind_io_def return_io_def)

theorem deposit_routes_witness:
  "isNativeToken demoEnv ''ETH''
   \<and> getDepositContractAddress demoEnv ''jar'' ''ETH'' [] = (Inr ''jar'', [])
   \<and> isZappingIntoPickleJar demoEnv ''jar''
   \<and> deposit demoEnv ''jar'' ''ETH'' ''1'' ''account'' demoDepositSlippage noOverrides [] =
       zapIn demoEnv ''jar'' ''ETH'' ''1'' ''account'' demoDepositSlippage PICKLE noOverrides []
   \<and> \<not> isZappingIntoPickleJar demoEnv ''vaultA''
   \<and> getStatic demoEnv (Some [''vaultA'']) (Some noOverrides) [] =
       (Inr (demoStatic ''vaultA'' # []), [AssetsStatic 0 (Some [''vaultA'']) (Some noOverrides)])
   \<and> vs_token (demoStatic ''vaultA'') \<noteq> ''ETH''
   \<and> deposit demoEnv ''vaultA'' ''ETH'' ''1'' ''account'' demoDepositSlippage noOverrides [] =
       zapIn demoEnv ''vaultA'' ''ETH'' ''1'' ''account'' demoDepositSlippage YEARN noOverrides
         [AssetsStatic 0 (Some [''vaultA'']) (Some noOverrides)]
   \<and> vs_token (demoStatic ''vaultA'') = ''DAI''
   \<and> deposit demoEnv ''vaultA'' ''DAI'' ''1'' ''account'' demoDepositSlippage noOverrides [] =
       executeVaultContractTransaction
          (\<lambda>overrides.
             bind_io (populateDepositTransaction demoEnv ''vaultA'' ''1'' overrides)
               (\<lambda>populatedTransaction.
                  case populatedTransaction of
                    None \<Rightarrow> throw_io (SdkError ''deposit transaction failed'')
                  | Some tx \<Rightarrow> sendTransaction demoEnv tx))
          noOverrides [AssetsStatic 0 (Some [''vaultA'']) (Some noOverrides)]"
proof -
  have native: "isNativeToken demoEnv ''ETH''"
    by (simp add: demoEnv_def)
  have jar: "isZappingIntoPickleJar demoEnv ''jar''"
    by (simp add: isZappingIntoPickleJar_def demoEnv_def)
  have nojar: "\<not> isZappingIntoPickleJar demoEnv ''vaultA''"
    by (simp add: isZappingIntoPickleJar_def demoEnv_def)
  have static: "getStatic demoEnv (Some [''vaultA'']) (Some noOverrides) [] =
       (Inr (demoStatic ''vaultA'' # []), [AssetsStatic 0 (Some [''vaultA'']) (Some noOverrides)])"
    by (simp add: demo_getStatic)
  have other: "vs_token (demoStatic ''vaultA'') \<noteq> ''ETH''"
    by (simp add: demoStatic_def)
  have same: "vs_token (demoStatic ''vaultA'') = ''DAI''"
    by (simp add: demoStatic_def)
  note ETH = deposit_routes [where env = demoEnv and token = "''ETH''" and amount = "''1''"
      and account = "''account''" and options = demoDepositSlippage and overrides = noOverrides
      and h = "[]"]
  note DAI = deposit_routes [where env = demoEnv and token = "''DAI''" and amount = "''1''"
      and account = "''account''" and options = demoDepositSlippage and overrides = noOverrides
      and h = "[]" and vault = "''vaultA''" and vaultRef = "demoStatic ''vaultA''" and rest = "[]"
      and h' = "[AssetsStatic 0 (Some [''vaultA'']) (Some noOverrides)]"]
  from ETH [where vault = "''jar''"] native jar
  have 1: "getDepositContractAddress demoEnv ''jar'' ''ETH'' [] = (Inr ''jar'', [])"
    and 2: "deposit demoEnv ''jar'' ''ETH'' ''1'' ''account'' demoDepositSlippage noOverrides [] =
       zapIn demoEnv ''jar'' ''ETH'' ''1'' ''account'' demoDepositSlippage PICKLE noOverrides []"
    by blast+
  from ETH [where vault = "''vaultA''" and vaultRef = "demoStatic ''vaultA''" and rest = "[]"
      and h' = "[AssetsStatic 0 (Some [''vaultA'']) (Some noOverrides)]"] nojar static other
  have 3: "deposit demoEnv ''vaultA'' ''ETH'' ''1'' ''account'' demoDepositSlippage noOverrides [] =
       zapIn demoEnv ''vaultA'' ''ETH'' ''1'' ''account'' demoDepositSlippage YEARN noOverrides
         [AssetsStatic 0 (Some [''vaultA'']) (Some noOverrides)]"
    by blast
  from DAI nojar static same
  have 4: "deposit demoEnv ''vaultA'' ''DAI'' ''1'' ''account'' demoDepositSlippage noOverrides [] =
       executeVaultContractTransaction
          (\<lambda>overrides.
             bind_io (populateDepositTransaction demoEnv ''vaultA'' ''1'' overrides)
               (\<lambda>populatedTransaction.
                  case populatedTransaction of
                    None \<Rightarrow> throw_io (SdkError ''deposit transaction failed'')
                  | Some tx \<Rightarrow> sendTransaction demoEnv tx))
          noOverrides [AssetsStatic 0 (Some [''vaultA'']) (Some noOverrides)]"
    by blast
  from native jar nojar static other same 1 2 3 4 show ?thesis by blast
qed

section \<open>Gas-parameter fallback\<close>

lemma sendTransaction_sent:
  "sentTransactions (snd (sendTransaction env tx h)) = sentTransactions h
   \<or> sentTransactions (snd (sendTransaction env tx h)) = sentTransactions h @ [tx]"
  by (simp add: sendTransaction_def validateTx_def io_defs sentTransactions_def
        List.map_filter_def split: prod.splits sum.splits)

text \<open>
  C4, as stated, at a concrete submission on the zap route: a withdraw of a token that is
  not the underlying one, on the chain served by the wido router, where the node rejects
  the send with code -32602. The transaction of the router is sent once, with its legacy
  gas price in place, and the rejection propagates: no second attempt is made.
\<close>

theorem wido_zap_is_sent_once:
  "isFantom fantomEnv
   \<and> withdraw fantomEnv ''vaultA'' ''USDC'' ''1'' ''account'' demoSlippage noOverrides [] =
       (Inl (External (Some (- 32602)) ''invalid params''),
        [AssetsStatic 0 (Some [''vaultA'']) (Some noOverrides),
         WidoWithdraw ''account'' ''USDC'' ''1'' ''vaultA'',
         ValidateCalldata (Some widoRouter) (Some ''0xwido''),
         SignerSendTransaction (demoTransaction widoRouter ''0xwido'')])
   \<and> tx_gasPrice (demoTransaction widoRouter ''0xwido'') = Some (BigNumber 7)"
  by (simp add: withdraw_def fantomEnv_def demoSlippage_def unsupportedNode_def
        demoEnv_def demoTransaction_def demoStatic_def noOverrides_def
        sendTransaction_def validateTx_def firstStatic_def getStatic_def io_defs)

text \<open>
  C4, amended: a transaction submitted through \<open>executeVaultContractTransaction\<close> (the
  direct vault call) or through \<open>executeZapperTransaction\<close> (the zapper route) is first
  attempted with the legacy gas price cleared. If and only if that attempt fails with the
  code -32602, a second attempt is made with the two EIP-1559 fee fields cleared and the
  gas price set to the caller's override, or on the zapper route to the quote's fallback
  gas price when the caller gave none. Any other failure, and the outcome of the second
  attempt, is the outcome of the call, so there is no third attempt: the zapper route hands
  at most two transactions to the signer. The wido route, which \<open>zapIn\<close> and \<open>withdraw\<close>
  take for a zap when \<open>isFantom\<close> holds, is outside this policy: the transaction that wido
  quotes is handed to \<open>sendTransaction\<close> once and unchanged, its gas price included, and the
  outcome of that one send is the outcome of the call.
\<close>

theorem gas_fallback_two_attempts:
  "executeZapperTransaction env request overrides fallbackGasPrice h =
     (case sendTransaction env ((spreadOverrides request overrides)\<lparr>tx_gasPrice := None\<rparr>) h of
        (Inr response, h1) \<Rightarrow> (Inr response, h1)
      | (Inl error, h1) \<Rightarrow>
          if errorCode error = Some (- 32602)
          then sendTransaction env
                 ((spreadOverrides request overrides)
                    \<lparr> tx_maxFeePerGas := None, tx_maxPriorityFeePerGas := None,
                      tx_gasPrice := Some (gasPriceOr overrides fallbackGasPrice) \<rparr>) h1
          else (Inl error, h1))
   \<and> executeVaultContractTransaction makeTransaction overrides h =
     (case makeTransaction (overrides\<lparr>ov_gasPrice := Undefined\<rparr>) h of
        (Inr response, h1) \<Rightarrow> (Inr response, h1)
      | (Inl error, h1) \<Rightarrow>
          if errorCode error = Some (- 32602)
          then makeTransaction
                 (overrides\<lparr> ov_maxFeePerGas := Undefined, ov_maxPriorityFeePerGas := Undefined,
                             ov_gasPrice := writeProperty (readProperty (ov_gasPrice overrides)) \<rparr>) h1
          else (Inl error, h1))
   \<and> length (sentTransactions (snd (executeZapperTransaction env request overrides fallbackGasPrice h)))
       \<le> length (sentTransactions h) + 2
   \<and> (isFantom env \<longrightarrow> dep_slippage options = Some slippage \<longrightarrow>
        zapIn env vault token amount account options zapProtocol overrides h =
          (case widoDeposit env h account token amount vault of
             Inl error \<Rightarrow> (Inl error, h @ [WidoDeposit account token amount vault])
           | Inr quoted \<Rightarrow>
               sendTransaction env quoted (h @ [WidoDeposit account token amount vault])))
   \<and> (isFantom env \<longrightarrow>
        getStatic env (Some [vault]) (Some overrides) h = (Inr (vaultRef # rest), h') \<longrightarrow>
        vs_token vaultRef \<noteq> token \<longrightarrow>
        wd_slippage withdrawOptions = Some slippage \<longrightarrow>
        withdraw env vault token amount account withdrawOptions overrides h =
          (case widoWithdraw env h' account token amount vault of
             Inl error \<Rightarrow> (Inl error, h' @ [WidoWithdraw account token amount vault])
           | Inr quoted \<Rightarrow>
               sendTransaction env quoted (h' @ [WidoWithdraw account token amount vault])))
   \<and> (sentTransactions (snd (sendTransaction env quoted h)) = sentTransactions h
        \<or> sentTransactions (snd (sendTransaction env quoted h)) = sentTransactions h @ [quoted])"
proof -
  let ?tx1 = "(spreadOverrides request overrides)\<lparr>tx_gasPrice := None\<rparr>"
  let ?tx2 = "(spreadOverrides request overrides)
                    \<lparr> tx_maxFeePerGas := None, tx_maxPriorityFeePerGas := None,
                      tx_gasPrice := Some (gasPriceOr overrides fallbackGasPrice) \<rparr>"
  have zap: "executeZapperTransaction env request overrides fallbackGasPrice h =
     (case sendTransaction env ?tx1 h of
        (Inr response, h1) \<Rightarrow> (Inr response, h1)
      | (Inl error, h1) \<Rightarrow>
          if errorCode error = Some (- 32602)
          then sendTransaction env ?tx2 h1
          else (Inl error, h1))"
    by (simp add: executeZapperTransaction_def catch_io_def throw_io_def Let_def
          split: prod.splits sum.splits)
  have vault: "executeVaultContractTransaction makeTransaction overrides h =
     (case makeTransaction (overrides\<lparr>ov_gasPrice := Undefined\<rparr>) h of
        (Inr response, h1) \<Rightarrow> (Inr response, h1)
      | (Inl error, h1) \<Rightarrow>
          if errorCode error = Some (- 32602)
          then makeTransaction
                 (overrides\<lparr> ov_maxFeePerGas := Undefined, ov_maxPriorityFeePerGas := Undefined,
                             ov_gasPrice := writeProperty (readProperty (ov_gasPrice overrides)) \<rparr>) h1
          else (Inl error, h1))"
    by (simp add: executeVaultContractTransaction_def catch_io_def throw_io_def Let_def
          split: prod.splits sum.splits)
  obtain r1 h1 where first: "sendTransaction env ?tx1 h = (r1, h1)"
    by (cases "sendTransaction env ?tx1 h")
  from sendTransaction_sent [of env ?tx1 h] first
  have one: "length (sentTransactions h1) \<le> length (sentTransactions h) + 1"
    by auto
  from sendTransaction_sent [of env ?tx2 h1]
  have two: "length (sentTransactions (snd (sendTransaction env ?tx2 h1)))
               \<le> length (sentTransactions h1) + 1"
    by auto
  have bound: "length (sentTransactions (snd (executeZapperTransaction env request overrides fallbackGasPrice h)))
       \<le> length (sentTransactions h) + 2"
    using first one two by (cases r1) (auto simp: zap)
  have widoIn: "isFantom env \<longrightarrow> dep_slippage options = Some slippage \<longrightarrow>
        zapIn env vault token amount account options zapProtocol overrides h =
          (case widoDeposit env h account token amount vault of
             Inl error \<Rightarrow> (Inl error, h @ [WidoDeposit account token amount vault])
           | Inr quoted \<Rightarrow>
               sendTransaction env quoted (h @ [WidoDeposit account token amount vault]))"
    by (simp add: zapIn_def bind_io_def await_call_def split: sum.splits)
  have widoOut: "isFantom env \<longrightarrow>
        getStatic env (Some [vault]) (Some overrides) h = (Inr (vaultRef # rest), h') \<longrightarrow>
        vs_token vaultRef \<noteq> token \<longrightarrow>
        wd_slippage withdrawOptions = Some slippage \<longrightarrow>
        withdraw env vault token amount account withdrawOptions overrides h =
          (case widoWithdraw env h' account token amount vault of
             Inl error \<Rightarrow> (Inl error, h' @ [WidoWithdraw account token amount vault])
           | Inr quoted \<Rightarrow>
               sendTransaction env quoted (h' @ [WidoWithdraw account token amount vault]))"
    by (simp add: withdraw_def firstStatic_def bind_io_def return_io_def await_call_def
          split: sum.splits)
  from zap vault bound widoIn widoOut sendTransaction_sent [of env quoted h]
  show ?thesis by blast
qed

theorem gas_fallback_two_attempts_witness:
  "sentTransactions
     (snd (executeZapperTransaction (demoEnv \<lparr> signerSendTransaction := unsupportedOnce \<rparr>)
             (demoTransaction ''zapOutContract'' ''0xzap'') noOverrides (BigNumber 5) [])) =
     [(demoTransaction ''zapOutContract'' ''0xzap'') \<lparr> tx_gasPrice := None \<rparr>,
      (demoTransaction ''zapOutContract'' ''0xzap'') \<lparr> tx_gasPrice := Some (BigNumber 5) \<rparr>]
   \<and> isFantom fantomEnv
   \<and> dep_slippage demoDepositSlippage = Some (1 / 100)
   \<and> zapIn fantomEnv ''vaultA'' ''USDC'' ''1'' ''account'' demoDepositSlippage YEARN noOverrides [] =
       (Inl (External (Some (- 32602)) ''invalid params''),
        [WidoDeposit ''account'' ''USDC'' ''1'' ''vaultA'',
         ValidateCalldata (Some widoRouter) (Some ''0xwido''),
         SignerSendTransaction (demoTransaction widoRouter ''0xwido'')])
   \<and> getStatic fantomEnv (Some [''vaultA'']) (Some noOverrides) [] =
       (Inr (demoStatic ''vaultA'' # []), [AssetsStatic 0 (Some [''vaultA'']) (Some noOverrides)])
   \<and> vs_token (demoStatic ''vaultA'') \<noteq> ''USDC''
   \<and> wd_slippage demoSlippage = Some (1 / 100)
   \<and> withdraw fantomEnv ''vaultA'' ''USDC'' ''1'' ''account'' demoSlippage noOverrides [] =
       (Inl (External (Some (- 32602)) ''invalid params''),
        [AssetsStatic 0 (Some [''vaultA'']) (Some noOverrides),
         WidoWithdraw ''account'' ''USDC'' ''1'' ''vaultA'',
         ValidateCalldata (Some widoRouter) (Some ''0xwido''),
         SignerSendTransaction (demoTransaction widoRouter ''0xwido'')])
   \<and> sentTransactions
     (snd (executeZapperTransaction retryEnv
             ((demoTransaction ''zapOutContract'' ''0xzap'') \<lparr> tx_gasLimit := Some (BigNumber 21000) \<rparr>)
             callerOverrides (BigNumber 5) [])) =
     [(demoTransaction ''zapOutContract'' ''0xzap'')
        \<lparr> tx_gasLimit := None, tx_gasPrice := None, tx_maxFeePerGas := Some (Number 9) \<rparr>,
      (demoTransaction ''zapOutContract'' ''0xzap'')
        \<lparr> tx_gasLimit := None, tx_gasPrice := Some (Number 3), tx_maxFeePerGas := None \<rparr>]
   \<and> snd (withdraw retryEnv ''vaultA'' ''DAI'' ''1'' ''account'' demoSlippage callerOverrides []) =
     [AssetsStatic 0 (Some [''vaultA'']) (Some callerOverrides),
      ContractPopulate ''vaultA'' ''withdraw'' ''1'' (callerOverrides \<lparr> ov_gasPrice := Undefined \<rparr>),
      ValidateCalldata (Some ''vaultA'') (Some ''withdraw''),
      SignerSendTransaction
        ((demoTransaction ''vaultA'' ''withdraw'')
           \<lparr> tx_gasPrice := None, tx_maxFeePerGas := Some (Number 9) \<rparr>),
      ContractPopulate ''vaultA'' ''withdraw'' ''1''
        (callerOverrides \<lparr> ov_maxFeePerGas := Undefined, ov_maxPriorityFeePerGas := Undefined \<rparr>),
      ValidateCalldata (Some ''vaultA'') (Some ''withdraw''),
      SignerSendTransaction
        ((demoTransaction ''vaultA'' ''withdraw'') \<lparr> tx_gasPrice := Some (Number 3) \<rparr>)]"
proof -
  have fantom: "isFantom fantomEnv"
    by (simp add: fantomEnv_def)
  have slipIn: "dep_slippage demoDepositSlippage = Some (1 / 100)"
    by (simp add: demoDepositSlippage_def)
  have slipOut: "wd_slippage demoSlippage = Some (1 / 100)"
    by (simp add: demoSlippage_def)
  have static: "getStatic fantomEnv (Some [''vaultA'']) (Some noOverrides) [] =
       (Inr (demoStatic ''vaultA'' # []), [AssetsStatic 0 (Some [''vaultA'']) (Some noOverrides)])"
    by (simp add: getStatic_def fantomEnv_def demoEnv_def io_defs)
  have other: "vs_token (demoStatic ''vaultA'') \<noteq> ''USDC''"
    by (simp add: demoStatic_def)
  note policy = gas_fallback_two_attempts
    [where env = fantomEnv and vault = "''vaultA''" and token = "''USDC''" and amount = "''1''"
       and account = "''account''" and overrides = noOverrides and h = "[]"
       and options = demoDepositSlippage and withdrawOptions = demoSlippage
       and slippage = "1 / 100" and zapProtocol = YEARN
       and vaultRef = "demoStatic ''vaultA''" and rest = "[]"
       and h' = "[AssetsStatic 0 (Some [''vaultA'']) (Some noOverrides)]"]
  from policy fantom slipIn
  have "zapIn fantomEnv ''vaultA'' ''USDC'' ''1'' ''account'' demoDepositSlippage YEARN noOverrides [] =
          (case widoDeposit fantomEnv [] ''account'' ''USDC'' ''1'' ''vaultA'' of
             Inl error \<Rightarrow> (Inl error, [] @ [WidoDeposit ''account'' ''USDC'' ''1'' ''vaultA''])
           | Inr quoted \<Rightarrow>
               sendTransaction fantomEnv quoted ([] @ [WidoDeposit ''account'' ''USDC'' ''1'' ''vaultA'']))"
    by blast
  then have zapped: "zapIn fantomEnv ''vaultA'' ''USDC'' ''1'' ''account'' demoDepositSlippage YEARN noOverrides [] =
       (Inl (External (Some (- 32602)) ''invalid params''),
        [WidoDeposit ''account'' ''USDC'' ''1'' ''vaultA'',
         ValidateCalldata (Some widoRouter) (Some ''0xwido''),
         SignerSendTransaction (demoTransaction widoRouter ''0xwido'')])"
    by (simp add: fantomEnv_def demoEnv_def unsupportedNode_def demoTransaction_def
          sendTransaction_def validateTx_def io_defs)
  from policy fantom static other slipOut
  have "withdraw fantomEnv ''vaultA'' ''USDC'' ''1'' ''account'' demoSlippage noOverrides [] =
          (case widoWithdraw fantomEnv [AssetsStatic 0 (Some [''vaultA'']) (Some noOverrides)]
                  ''account'' ''USDC'' ''1'' ''vaultA'' of
             Inl error \<Rightarrow> (Inl error, [AssetsStatic 0 (Some [''vaultA'']) (Some noOverrides)]
                                      @ [WidoWithdraw ''account'' ''USDC'' ''1'' ''vaultA''])
           | Inr quoted \<Rightarrow>
               sendTransaction fantomEnv quoted
                 ([AssetsStatic 0 (Some [''vaultA'']) (Some noOverrides)]
                  @ [WidoWithdraw ''account'' ''USDC'' ''1'' ''vaultA'']))"
    by blast
  then have withdrawn: "withdraw fantomEnv ''vaultA'' ''USDC'' ''1'' ''account'' demoSlippage noOverrides [] =
       (Inl (External (Some (- 32602)) ''invalid params''),
        [AssetsStatic 0 (Some [''vaultA'']) (Some noOverrides),
         WidoWithdraw ''account'' ''USDC'' ''1'' ''vaultA'',
         ValidateCalldata (Some widoRouter) (Some ''0xwido''),
         SignerSendTransaction (demoTransaction widoRouter ''0xwido'')])"
    by (simp add: fantomEnv_def demoEnv_def unsupportedNode_def demoTransaction_def
          sendTransaction_def validateTx_def io_defs)
  have retried: "sentTransactions
     (snd (executeZapperTransaction (demoEnv \<lparr> signerSendTransaction := unsupportedOnce \<rparr>)
             (demoTransaction ''zapOutContract'' ''0xzap'') noOverrides (BigNumber 5) [])) =
     [(demoTransaction ''zapOutContract'' ''0xzap'') \<lparr> tx_gasPrice := None \<rparr>,
      (demoTransaction ''zapOutContract'' ''0xzap'') \<lparr> tx_gasPrice := Some (BigNumber 5) \<rparr>]"
    using gas_fallback_two_attempts
          [of "demoEnv \<lparr> signerSendTransaction := unsupportedOnce \<rparr>"
              "demoTransaction ''zapOutContract'' ''0xzap''" noOverrides "BigNumber 5" "[]"]
    by (simp add: demoEnv_def demoTransaction_def noOverrides_def unsupportedOnce_def
        spreadOverrides_def gasPriceOr_def sendTransaction_def validateTx_def
        io_defs sentTransactions_def List.map_filter_def)
  have callerZap: "sentTransactions
     (snd (executeZapperTransaction retryEnv
             ((demoTransaction ''zapOutContract'' ''0xzap'') \<lparr> tx_gasLimit := Some (BigNumber 21000) \<rparr>)
             callerOverrides (BigNumber 5) [])) =
     [(demoTransaction ''zapOutContract'' ''0xzap'')
        \<lparr> tx_gasLimit := None, tx_gasPrice := None, tx_maxFeePerGas := Some (Number 9) \<rparr>,
      (demoTransaction ''zapOutContract'' ''0xzap'')
        \<lparr> tx_gasLimit := None, tx_gasPrice := Some (Number 3), tx_maxFeePerGas := None \<rparr>]"
  by (simp add: retryEnv_def demoEnv_def demoTransaction_def noOverrides_def callerOverrides_def
        unsupportedOnce_def executeZapperTransaction_def
        spreadOverrides_def gasPriceOr_def sendTransaction_def validateTx_def
        io_defs sentTransactions_def List.map_filter_def)
  have callerVault: "snd (withdraw retryEnv ''vaultA'' ''DAI'' ''1'' ''account'' demoSlippage callerOverrides []) =
     [AssetsStatic 0 (Some [''vaultA'']) (Some callerOverrides),
      ContractPopulate ''vaultA'' ''withdraw'' ''1'' (callerOverrides \<lparr> ov_gasPrice := Undefined \<rparr>),
      ValidateCalldata (Some ''vaultA'') (Some ''withdraw''),
      SignerSendTransaction
        ((demoTransaction ''vaultA'' ''withdraw'')
           \<lparr> tx_gasPrice := None, tx_maxFeePerGas := Some (Number 9) \<rparr>),
      ContractPopulate ''vaultA'' ''withdraw'' ''1''
        (callerOverrides \<lparr> ov_maxFeePerGas := Undefined, ov_maxPriorityFeePerGas := Undefined \<rparr>),
      ValidateCalldata (Some ''vaultA'') (Some ''withdraw''),
      SignerSendTransaction
        ((demoTransaction ''vaultA'' ''withdraw'') \<lparr> tx_gasPrice := Some (Number 3) \<rparr>)]"
  by (simp add: withdraw_def retryEnv_def demoEnv_def demoTransaction_def demoStatic_def
        noOverrides_def callerOverrides_def unsupportedOnce_def
        executeVaultContractTransaction_def firstStatic_def getStatic_def
        spreadOverrides_def sendTransaction_def validateTx_def io_defs Let_def)
  show ?thesis
    by (intro conjI)
       (fact retried fantom slipIn zapped static other slipOut withdrawn callerZap callerVault)+
qed

section \<open>Metadata overrides\<close>

text \<open>
  C7, as stated, at a concrete record: the dynamic record allows zap-in and the override
  record has no \<open>allowZapIn\<close>. After \<open>fillMetadataOverrides\<close> the flag of the dynamic
  record is gone: the zap routing hints are assigned from the override unconditionally.
\<close>

theorem absent_zap_hint_clears_dynamic_value:
  "mo_allowZapIn (demoOverride ''vaultA'') = None
   \<and> md_allowZapIn (vd_metadata (demoDynamic ''vaultA'')) = Some True
   \<and> md_allowZapIn (vd_metadata (fillMetadataOverrides (demoDynamic ''vaultA'') (demoOverride ''vaultA'')))
       = None"
  by (simp add: fillMetadataOverrides_def demoDynamic_def demoOverride_def demoMetadata_def)

text \<open>
  C7, amended: an absent (or empty) display name, symbol or icon override leaves the display
  name, symbol and icon of the dynamic record unchanged; absent APY overrides leave its APY
  unchanged; an absent \<open>migrationAvailable\<close> override leaves its migration-available flag
  unchanged. The disabled flags, the zap routing hints and the migration contract and
  target are always taken from the override record, so that an absent override field
  leaves them undefined whatever the dynamic record held.
\<close>

theorem absent_overrides_frame:
  "(\<not> truthyStr (mo_displayName ov) \<longrightarrow>
      md_displayName (vd_metadata (fillMetadataOverrides d ov)) = md_displayName (vd_metadata d))
   \<and> (\<not> truthyStr (mo_vaultSymbolOverride ov) \<longrightarrow>
      md_symbol (vd_metadata (fillMetadataOverrides d ov)) = md_symbol (vd_metadata d))
   \<and> (\<not> truthyStr (mo_vaultIconOverride ov) \<longrightarrow>
      md_displayIcon (vd_metadata (fillMetadataOverrides d ov)) = md_displayIcon (vd_metadata d))
   \<and> (\<not> truthyStr (mo_apyTypeOverride ov) \<longrightarrow> \<not> truthyNum (mo_apyOverride ov) \<longrightarrow>
      md_apy (vd_metadata (fillMetadataOverrides d ov)) = md_apy (vd_metadata d))
   \<and> (\<not> truthyBool (mo_migrationAvailable ov) \<longrightarrow>
      md_migrationAvailable (vd_metadata (fillMetadataOverrides d ov))
        = md_migrationAvailable (vd_metadata d))
   \<and> md_depositsDisabled (vd_metadata (fillMetadataOverrides d ov)) = mo_depositsDisabled ov
   \<and> md_withdrawalsDisabled (vd_metadata (fillMetadataOverrides d ov)) = mo_withdrawalsDisabled ov
   \<and> md_allowZapIn (vd_metadata (fillMetadataOverrides d ov)) = mo_allowZapIn ov
   \<and> md_allowZapOut (vd_metadata (fillMetadataOverrides d ov)) = mo_allowZapOut ov
   \<and> md_zapInWith (vd_metadata (fillMetadataOverrides d ov)) = mo_zapInWith ov
   \<and> md_zapOutWith (vd_metadata (fillMetadataOverrides d ov)) = mo_zapOutWith ov
   \<and> md_migrationContract (vd_metadata (fillMetadataOverrides d ov)) = mo_migrationContract ov
   \<and> md_migrationTargetVault (vd_metadata (fillMetadataOverrides d ov)) = mo_migrationTargetVault ov"
  by (simp add: fillMetadataOverrides_def Let_def)

theorem absent_overrides_frame_witness:
  "\<not> truthyStr (mo_displayName (demoOverride ''vaultA''))
   \<and> md_displayName (vd_metadata (fillMetadataOverrides (demoDynamic ''vaultA'') (demoOverride ''vaultA'')))
       = md_displayName (vd_metadata (demoDynamic ''vaultA''))
   \<and> \<not> truthyStr (mo_vaultSymbolOverride (demoOverride ''vaultA''))
   \<and> md_symbol (vd_metadata (fillMetadataOverrides (demoDynamic ''vaultA'') (demoOverride ''vaultA'')))
       = md_symbol (vd_metadata (demoDynamic ''vaultA''))
   \<and> \<not> truthyStr (mo_vaultIconOverride (demoOverride ''vaultA''))
   \<and> md_displayIcon (vd_metadata (fillMetadataOverrides (demoDynamic ''vaultA'') (demoOverride ''vaultA'')))
       = md_displayIcon (vd_metadata (demoDynamic ''vaultA''))
   \<and> \<not> truthyStr (mo_apyTypeOverride (demoOverride ''vaultA''))
   \<and> \<not> truthyNum (mo_apyOverride (demoOverride ''vaultA''))
   \<and> md_apy (vd_metadata (fillMetadataOverrides (demoDynamic ''vaultA'') (demoOverride ''vaultA'')))
       = md_apy (vd_metadata (demoDynamic ''vaultA''))
   \<and> \<not> truthyBool (mo_migrationAvailable (demoOverride ''vaultA''))
   \<and> md_migrationAvailable (vd_metadata (fillMetadataOverrides (demoDynamic ''vaultA'') (demoOverride ''vaultA'')))
       = md_migrationAvailable (vd_metadata (demoDynamic ''vaultA''))"
proof -
  have absent:
    "\<not> truthyStr (mo_displayName (demoOverride ''vaultA''))"
    "\<not> truthyStr (mo_vaultSymbolOverride (demoOverride ''vaultA''))"
    "\<not> truthyStr (mo_vaultIconOverride (demoOverride ''vaultA''))"
    "\<not> truthyStr (mo_apyTypeOverride (demoOverride ''vaultA''))"
    "\<not> truthyNum (mo_apyOverride (demoOverride ''vaultA''))"
    "\<not> truthyBool (mo_migrationAvailable (demoOverride ''vaultA''))"
    by (simp_all add: demoOverride_def)
  with absent_overrides_frame [of "demoOverride ''vaultA''" "demoDynamic ''vaultA''"]
  show ?thesis by blast
qed

section \<open>Missing dynamic records\<close>

lemma findIndex_None: "findIndex P xs = None \<longleftrightarrow> (\<forall>x \<in> set xs. \<not> P x)"
  by (induction xs) auto

lemma findIndex_Some: "findIndex P xs = Some i \<Longrightarrow> i < length xs \<and> P (xs ! i)"
  by (induction xs arbitrary: i) (auto split: if_splits)

lemma update_metadata_addresses:
  assumes "i < length dyn"
  shows "vd_address ` set (dyn[i := (dyn ! i)\<lparr>vd_metadata := m\<rparr>]) = vd_address ` set dyn"
proof -
  have "map vd_address (dyn[i := (dyn ! i)\<lparr>vd_metadata := m\<rparr>]) = map vd_address dyn"
    using assms by (simp add: map_update list_update_same_conv)
  then have "set (map vd_address (dyn[i := (dyn ! i)\<lparr>vd_metadata := m\<rparr>])) = set (map vd_address dyn)"
    by simp
  then show ?thesis by (simp only: set_map)
qed

lemma mergeLoop_first_missing:
  assumes "vs_address asset \<notin> vd_address ` set dyn"
  shows "mergeLoop vmo sm he (asset # rest) dyn acc =
           Inl (SdkError (''Dynamic asset does not exist for '' @ vs_address asset))"
proof -
  from assms have "findIndex (\<lambda>d. vs_address asset = vd_address d) dyn = None"
    by (auto simp: findIndex_None)
  then show ?thesis by simp
qed

lemma mergeLoop_missing:
  assumes "\<exists>a \<in> set S. vs_address a \<notin> vd_address ` set dyn"
  shows "\<exists>a \<in> set S. vs_address a \<notin> vd_address ` set dyn \<and>
           mergeLoop vmo sm he S dyn acc =
             Inl (SdkError (''Dynamic asset does not exist for '' @ vs_address a))"
  using assms
proof (induction S arbitrary: dyn acc)
  case Nil
  then show ?case by simp
next
  case (Cons asset rest)
  show ?case
  proof (cases "findIndex (\<lambda>d. vs_address asset = vd_address d) dyn")
    case None
    then have "vs_address asset \<notin> vd_address ` set dyn"
      by (auto simp: findIndex_None)
    with mergeLoop_first_missing [of asset dyn vmo sm he rest acc] show ?thesis
      by auto
  next
    case (Some i)
    from findIndex_Some [OF Some] have i: "i < length dyn" and hit: "vs_address asset = vd_address (dyn ! i)"
      by auto
    from hit i have "vs_address asset \<in> vd_address ` set dyn"
      by (metis imageI nth_mem)
    with Cons.prems have rest: "\<exists>a \<in> set rest. vs_address a \<notin> vd_address ` set dyn"
      by auto
    show ?thesis
    proof (cases "case find (\<lambda>override. mo_address override = vs_address asset) vmo of
                    None \<Rightarrow> False | Some ov \<Rightarrow> truthyBool (mo_hideAlways ov)")
      case True
      from Cons.IH [OF rest, of acc] obtain a where
        "a \<in> set rest" "vs_address a \<notin> vd_address ` set dyn"
        "mergeLoop vmo sm he rest dyn acc =
           Inl (SdkError (''Dynamic asset does not exist for '' @ vs_address a))"
        by blast
      with Some True show ?thesis by (auto simp: Let_def)
    next
      case False
      define m' where "m' = (vd_metadata (dyn ! i))
            \<lparr>md_displayName :=
               (if md_displayName (vd_metadata (dyn ! i)) \<noteq> [] then md_displayName (vd_metadata (dyn ! i))
                else vs_name asset),
             md_strategies := find (\<lambda>metadata. sm_vaultAddress metadata = vs_address asset) sm,
             md_historicEarnings :=
               map_option he_dayData (find (\<lambda>earnings. he_assetAddress earnings = vs_address asset) he)\<rparr>"
      define dyn' where "dyn' = dyn[i := (dyn ! i)\<lparr>vd_metadata := m'\<rparr>]"
      define order where "order = (case (case find (\<lambda>override. mo_address override = vs_address asset) vmo of
                                None \<Rightarrow> None | Some ov \<Rightarrow> mo_order ov) of
                                Some r \<Rightarrow> Finite r
                              | None \<Rightarrow> Math_max [])"
      have same: "vd_address ` set dyn' = vd_address ` set dyn"
        unfolding dyn'_def using i by (rule update_metadata_addresses)
      with rest have "\<exists>a \<in> set rest. vs_address a \<notin> vd_address ` set dyn'"
        by simp
      from Cons.IH [OF this, of "acc @ [(asset, i, order)]"] obtain a where
        a: "a \<in> set rest" "vs_address a \<notin> vd_address ` set dyn'"
        "mergeLoop vmo sm he rest dyn' (acc @ [(asset, i, order)]) =
           Inl (SdkError (''Dynamic asset does not exist for '' @ vs_address a))"
        by blast
      have "mergeLoop vmo sm he (asset # rest) dyn acc =
              mergeLoop vmo sm he rest dyn' (acc @ [(asset, i, order)])"
        using Some False by (simp add: Let_def dyn'_def m'_def order_def)
      with a same show ?thesis by auto
    qed
  qed
qed

lemma mergeAndSort_missing:
  assumes "\<exists>a \<in> set S. vs_address a \<notin> vd_address ` set D"
  shows "\<exists>a \<in> set S. vs_address a \<notin> vd_address ` set D \<and>
           mergeAndSort vmo sm he S D =
             Inl (SdkError (''Dynamic asset does not exist for '' @ vs_address a))"
proof -
  from mergeLoop_missing [OF assms, of vmo sm he "[]"] obtain a where
    "a \<in> set S" "vs_address a \<notin> vd_address ` set D"
    "mergeLoop vmo sm he S D [] =
       Inl (SdkError (''Dynamic asset does not exist for '' @ vs_address a))"
    by blast
  then show ?thesis
    by (auto simp: mergeAndSort_def assetsWithOrder_def)
qed

lemma get_cold:
  assumes "cachedFetcherGet env h = None"
    and "getInputs env addresses overrides (h @ [CachedFetcherGet]) = (Inr (vmo, S, D, sm, he), h')"
  shows "get env addresses overrides h =
           (case mergeAndSort vmo sm he S D of
              Inl e \<Rightarrow> (Inl e, h')
            | Inr vaults \<Rightarrow> (Inr vaults, h'))"
  using assms by (simp add: get_def io_defs split: sum.splits)

text \<open>
  C5: on a cache miss, once the static and the dynamic records have been fetched, a static
  record without a dynamic record of the same address makes \<open>get\<close> fail with the error
  \<open>Dynamic asset does not exist for ...\<close>, naming such a record: no listing is returned from
  which the record would be missing.
\<close>

theorem get_fails_on_missing_dynamic:
  assumes "cachedFetcherGet env h = None"
    and "getInputs env addresses overrides (h @ [CachedFetcherGet]) = (Inr (vmo, S, D, sm, he), h')"
    and "asset \<in> set S"
    and "vs_address asset \<notin> vd_address ` set D"
  shows "\<exists>a \<in> set S. vs_address a \<notin> vd_address ` set D \<and>
           get env addresses overrides h =
             (Inl (SdkError (''Dynamic asset does not exist for '' @ vs_address a)), h')"
proof -
  from assms(3,4) have "\<exists>a \<in> set S. vs_address a \<notin> vd_address ` set D"
    by blast
  from mergeAndSort_missing [OF this, of vmo sm he] obtain a where
    "a \<in> set S" "vs_address a \<notin> vd_address ` set D"
    "mergeAndSort vmo sm he S D =
       Inl (SdkError (''Dynamic asset does not exist for '' @ vs_address a))"
    by blast
  with get_cold [OF assms(1,2)] show ?thesis by auto
qed


lemmas listing_defs =
  getInputs_def getDynamicOrChunked_def getDynamic_def getStatic_def metaVaultsOrEmpty_def
  filterAddresses_def demoAddresses_def

lemma missingDynamicEnv_inputs:
  "getInputs missingDynamicEnv None None [CachedFetcherGet] =
     (Inr ([], map demoStatic demoAddresses,
           [enrichDynamic missingDynamicEnv [] (\<lambda>a. None) (demoDynamic ''vaultA'')], [], []),
      [CachedFetcherGet, MetaVaults, AssetsStatic 0 None None, CachedFetcherGetDynamic,
       ZapperSupportedVaultAddresses, AssetsDynamic 0 None None, VisionApy [''vaultA''],
       VaultsStrategiesMetadata [''vaultA''], AssetsHistoricEarnings])"
  by (simp add: listing_defs missingDynamicEnv_def demoEnv_def io_defs demoDynamic_def
        enrichDynamic_def)

lemma enrichDynamic_address: "vd_address (enrichDynamic env mo apy d) = vd_address d"
  by (simp add: enrichDynamic_def fillMetadataOverrides_def Let_def split: option.splits)

theorem get_fails_on_missing_dynamic_witness:
  "cachedFetcherGet missingDynamicEnv [] = None
   \<and> getInputs missingDynamicEnv None None ([] @ [CachedFetcherGet]) =
       (Inr ([], map demoStatic demoAddresses,
             [enrichDynamic missingDynamicEnv [] (\<lambda>a. None) (demoDynamic ''vaultA'')], [], []),
        [CachedFetcherGet, MetaVaults, AssetsStatic 0 None None, CachedFetcherGetDynamic,
         ZapperSupportedVaultAddresses, AssetsDynamic 0 None None, VisionApy [''vaultA''],
         VaultsStrategiesMetadata [''vaultA''], AssetsHistoricEarnings])
   \<and> demoStatic ''vaultB'' \<in> set (map demoStatic demoAddresses)
   \<and> vs_address (demoStatic ''vaultB'')
       \<notin> vd_address ` set [enrichDynamic missingDynamicEnv [] (\<lambda>a. None) (demoDynamic ''vaultA'')]
   \<and> (\<exists>a \<in> set (map demoStatic demoAddresses).
         vs_address a
           \<notin> vd_address ` set [enrichDynamic missingDynamicEnv [] (\<lambda>a. None) (demoDynamic ''vaultA'')]
         \<and> get missingDynamicEnv None None [] =
             (Inl (SdkError (''Dynamic asset does not exist for '' @ vs_address a)),
              [CachedFetcherGet, MetaVaults, AssetsStatic 0 None None, CachedFetcherGetDynamic,
               ZapperSupportedVaultAddresses, AssetsDynamic 0 None None, VisionApy [''vaultA''],
               VaultsStrategiesMetadata [''vaultA''], AssetsHistoricEarnings]))"
proof -
  have cold: "cachedFetcherGet missingDynamicEnv [] = None"
    by (simp add: missingDynamicEnv_def demoEnv_def)
  have inputs: "getInputs missingDynamicEnv None None ([] @ [CachedFetcherGet]) =
       (Inr ([], map demoStatic demoAddresses,
             [enrichDynamic missingDynamicEnv [] (\<lambda>a. None) (demoDynamic ''vaultA'')], [], []),
        [CachedFetcherGet, MetaVaults, AssetsStatic 0 None None, CachedFetcherGetDynamic,
         ZapperSupportedVaultAddresses, AssetsDynamic 0 None None, VisionApy [''vaultA''],
         VaultsStrategiesMetadata [''vaultA''], AssetsHistoricEarnings])"
    using missingDynamicEnv_inputs by simp
  have member: "demoStatic ''vaultB'' \<in> set (map demoStatic demoAddresses)"
    by (simp add: demoAddresses_def)
  have missing: "vs_address (demoStatic ''vaultB'')
       \<notin> vd_address ` set [enrichDynamic missingDynamicEnv [] (\<lambda>a. None) (demoDynamic ''vaultA'')]"
    by (simp add: enrichDynamic_address demoStatic_def demoDynamic_def)
  from get_fails_on_missing_dynamic [OF cold inputs member missing] cold inputs member missing
  show ?thesis by blast
qed

text \<open>
  C10: in the loop of \<open>get\<close> the dynamic record is looked up, and its absence raised, before
  the override of the static record is looked at. A static record that the overrides hide
  (\<open>hideAlways\<close>) and that has no dynamic record therefore makes the iteration that reaches
  it throw, and the whole listing fail, instead of being skipped.
\<close>

theorem missing_dynamic_checked_before_hideAlways:
  assumes "cachedFetcherGet env h = None"
    and "getInputs env addresses overrides (h @ [CachedFetcherGet]) = (Inr (vmo, S, D, sm, he), h')"
    and "asset \<in> set S"
    and "vs_address asset \<notin> vd_address ` set D"
    and "find (\<lambda>override. mo_address override = vs_address asset) vmo = Some ov"
    and "truthyBool (mo_hideAlways ov)"
  shows "mergeLoop vmo sm he (asset # rest) D acc =
           Inl (SdkError (''Dynamic asset does not exist for '' @ vs_address asset))
         \<and> (\<exists>a \<in> set S. vs_address a \<notin> vd_address ` set D \<and>
               get env addresses overrides h =
                 (Inl (SdkError (''Dynamic asset does not exist for '' @ vs_address a)), h'))"
proof -
  from assms(3,4) have "\<exists>a \<in> set S. vs_address a \<notin> vd_address ` set D"
    by blast
  from mergeAndSort_missing [OF this, of vmo sm he] obtain a where
    "a \<in> set S" "vs_address a \<notin> vd_address ` set D"
    "mergeAndSort vmo sm he S D =
       Inl (SdkError (''Dynamic asset does not exist for '' @ vs_address a))"
    by blast
  with get_cold [OF assms(1,2)] mergeLoop_first_missing [OF assms(4), of vmo sm he rest acc]
  show ?thesis by auto
qed

lemma hiddenMissingEnv_inputs:
  "getInputs hiddenMissingEnv None None [CachedFetcherGet] =
     (Inr ([(demoOverride ''vaultB'') \<lparr> mo_hideAlways := Some True \<rparr>], map demoStatic demoAddresses,
           [enrichDynamic hiddenMissingEnv [(demoOverride ''vaultB'') \<lparr> mo_hideAlways := Some True \<rparr>]
              (\<lambda>a. None) (demoDynamic ''vaultA'')], [], []),
      [CachedFetcherGet, MetaVaults, AssetsStatic 0 None None, CachedFetcherGetDynamic,
       ZapperSupportedVaultAddresses, AssetsDynamic 0 None None, VisionApy [''vaultA''],
       VaultsStrategiesMetadata [''vaultA''], AssetsHistoricEarnings])"
  by (simp add: listing_defs hiddenMissingEnv_def missingDynamicEnv_def demoEnv_def io_defs
        demoDynamic_def enrichDynamic_def demoOverride_def)

theorem missing_dynamic_checked_before_hideAlways_witness:
  "cachedFetcherGet hiddenMissingEnv [] = None
   \<and> demoStatic ''vaultB'' \<in> set (map demoStatic demoAddresses)
   \<and> find (\<lambda>override. mo_address override = vs_address (demoStatic ''vaultB''))
        [(demoOverride ''vaultB'') \<lparr> mo_hideAlways := Some True \<rparr>]
       = Some ((demoOverride ''vaultB'') \<lparr> mo_hideAlways := Some True \<rparr>)
   \<and> truthyBool (mo_hideAlways ((demoOverride ''vaultB'') \<lparr> mo_hideAlways := Some True \<rparr>))
   \<and> mergeLoop [(demoOverride ''vaultB'') \<lparr> mo_hideAlways := Some True \<rparr>] [] []
        (demoStatic ''vaultB'' # [])
        [enrichDynamic hiddenMissingEnv [(demoOverride ''vaultB'') \<lparr> mo_hideAlways := Some True \<rparr>]
           (\<lambda>a. None) (demoDynamic ''vaultA'')] [] =
       Inl (SdkError (''Dynamic asset does not exist for '' @ vs_address (demoStatic ''vaultB'')))
   \<and> (\<exists>a \<in> set (map demoStatic demoAddresses).
         get hiddenMissingEnv None None [] =
           (Inl (SdkError (''Dynamic asset does not exist for '' @ vs_address a)),
            [CachedFetcherGet, MetaVaults, AssetsStatic 0 None None, CachedFetcherGetDynamic,
             ZapperSupportedVaultAddresses, AssetsDynamic 0 None None, VisionApy [''vaultA''],
             VaultsStrategiesMetadata [''vaultA''], AssetsHistoricEarnings]))"
proof -
  let ?ov = "(demoOverride ''vaultB'') \<lparr> mo_hideAlways := Some True \<rparr>"
  let ?D = "[enrichDynamic hiddenMissingEnv [?ov] (\<lambda>a. None) (demoDynamic ''vaultA'')]"
  have cold: "cachedFetcherGet hiddenMissingEnv [] = None"
    by (simp add: hiddenMissingEnv_def missingDynamicEnv_def demoEnv_def)
  have inputs: "getInputs hiddenMissingEnv None None ([] @ [CachedFetcherGet]) =
     (Inr ([?ov], map demoStatic demoAddresses, ?D, [], []),
      [CachedFetcherGet, MetaVaults, AssetsStatic 0 None None, CachedFetcherGetDynamic,
       ZapperSupportedVaultAddresses, AssetsDynamic 0 None None, VisionApy [''vaultA''],
       VaultsStrategiesMetadata [''vaultA''], AssetsHistoricEarnings])"
    using hiddenMissingEnv_inputs by simp
  have member: "demoStatic ''vaultB'' \<in> set (map demoStatic demoAddresses)"
    by (simp add: demoAddresses_def)
  have missing: "vs_address (demoStatic ''vaultB'') \<notin> vd_address ` set ?D"
    by (simp add: enrichDynamic_address demoStatic_def demoDynamic_def)
  have hidden: "find (\<lambda>override. mo_address override = vs_address (demoStatic ''vaultB'')) [?ov] = Some ?ov"
    by (simp add: demoOverride_def demoStatic_def)
  have truthy: "truthyBool (mo_hideAlways ?ov)"
    by simp
  from missing_dynamic_checked_before_hideAlways
         [OF cold inputs member missing hidden truthy, of "[]" "[]"]
       cold member hidden truthy
  show ?thesis by blast
qed

section \<open>Order of the listing\<close>

lemma key_le_trans:
  assumes "a = NegInfinity \<or> (\<exists>r. a = Finite r)"
    and "b = NegInfinity \<or> (\<exists>r. b = Finite r)"
    and "c = NegInfinity \<or> (\<exists>r. c = Finite r)"
    and "comparatorSign (jsMinus a b) \<le> 0" and "comparatorSign (jsMinus b c) \<le> 0"
  shows "comparatorSign (jsMinus a c) \<le> 0"
  using assms by (auto split: if_splits)

lemma key_le_total:
  assumes "a = NegInfinity \<or> (\<exists>r. a = Finite r)"
    and "b = NegInfinity \<or> (\<exists>r. b = Finite r)"
    and "\<not> comparatorSign (jsMinus a b) > 0"
  shows "comparatorSign (jsMinus a b) \<le> 0"
  using assms by (auto split: if_splits)

lemma key_gt_le:
  assumes "a = NegInfinity \<or> (\<exists>r. a = Finite r)"
    and "b = NegInfinity \<or> (\<exists>r. b = Finite r)"
    and "comparatorSign (jsMinus a b) > 0"
  shows "comparatorSign (jsMinus b a) \<le> 0"
  using assms by (auto split: if_splits)

lemma set_insertSorted: "set (insertSorted cmp x xs) = insert x (set xs)"
  by (induction xs) auto

lemma insertSorted_sorted:
  fixes x :: "'a \<times> number"
  assumes "\<forall>p \<in> set (x # xs). snd p = NegInfinity \<or> (\<exists>r. snd p = Finite r)"
    and "sorted_wrt (\<lambda>a b. comparatorSign (jsMinus (snd a) (snd b)) \<le> 0) xs"
  shows "sorted_wrt (\<lambda>a b. comparatorSign (jsMinus (snd a) (snd b)) \<le> 0)
           (insertSorted (\<lambda>lhs rhs. jsMinus (snd lhs) (snd rhs)) x xs)"
  using assms
proof (induction xs)
  case Nil
  then show ?case by simp
next
  case (Cons y ys)
  show ?case
  proof (cases "comparatorSign (jsMinus (snd y) (snd x)) > 0")
    case True
    have xy: "comparatorSign (jsMinus (snd x) (snd y)) \<le> 0"
      using key_gt_le [of "snd y" "snd x"] True Cons.prems(1) by simp
    have "\<forall>z \<in> set ys. comparatorSign (jsMinus (snd x) (snd z)) \<le> 0"
    proof
      fix z assume z: "z \<in> set ys"
      with Cons.prems(2) have "comparatorSign (jsMinus (snd y) (snd z)) \<le> 0" by simp
      with xy key_le_trans [of "snd x" "snd y" "snd z"] Cons.prems(1) z
      show "comparatorSign (jsMinus (snd x) (snd z)) \<le> 0" by simp
    qed
    with True xy Cons.prems(2) show ?thesis by simp
  next
    case False
    have yx: "comparatorSign (jsMinus (snd y) (snd x)) \<le> 0"
      using key_le_total [of "snd y" "snd x"] False Cons.prems(1) by simp
    have "sorted_wrt (\<lambda>a b. comparatorSign (jsMinus (snd a) (snd b)) \<le> 0)
           (insertSorted (\<lambda>lhs rhs. jsMinus (snd lhs) (snd rhs)) x ys)"
      using Cons.IH Cons.prems by simp
    with False yx Cons.prems(2) show ?thesis
      by (auto simp: set_insertSorted)
  qed
qed

lemma foldl_insertSorted_sorted:
  fixes xs :: "('a \<times> number) list"
  assumes "\<forall>p \<in> set (xs @ acc). snd p = NegInfinity \<or> (\<exists>r. snd p = Finite r)"
    and "sorted_wrt (\<lambda>a b. comparatorSign (jsMinus (snd a) (snd b)) \<le> 0) acc"
  shows "sorted_wrt (\<lambda>a b. comparatorSign (jsMinus (snd a) (snd b)) \<le> 0)
           (foldl (\<lambda>sorted x. insertSorted (\<lambda>lhs rhs. jsMinus (snd lhs) (snd rhs)) x sorted) acc xs)"
  using assms
proof (induction xs arbitrary: acc)
  case Nil
  then show ?case by simp
next
  case (Cons x xs)
  have "sorted_wrt (\<lambda>a b. comparatorSign (jsMinus (snd a) (snd b)) \<le> 0)
          (insertSorted (\<lambda>lhs rhs. jsMinus (snd lhs) (snd rhs)) x acc)"
    using insertSorted_sorted [of x acc] Cons.prems by simp
  moreover have "\<forall>p \<in> set (xs @ insertSorted (\<lambda>lhs rhs. jsMinus (snd lhs) (snd rhs)) x acc).
                   snd p = NegInfinity \<or> (\<exists>r. snd p = Finite r)"
    using Cons.prems(1) by (auto simp: set_insertSorted)
  ultimately show ?case using Cons.IH by simp
qed

lemma arraySort_sorted:
  fixes xs :: "('a \<times> number) list"
  assumes "\<forall>p \<in> set xs. snd p = NegInfinity \<or> (\<exists>r. snd p = Finite r)"
  shows "sorted_wrt (\<lambda>a b. comparatorSign (jsMinus (snd a) (snd b)) \<le> 0)
           (arraySort (\<lambda>lhs rhs. jsMinus (snd lhs) (snd rhs)) xs)"
  unfolding arraySort_def using foldl_insertSorted_sorted [of xs "[]"] assms by simp

lemma mergeLoop_keys:
  assumes "mergeLoop vmo sm he S dyn acc = Inr (dyn', acc')"
    and "\<forall>p \<in> set acc. snd (snd p) = NegInfinity \<or> (\<exists>r. snd (snd p) = Finite r)"
  shows "\<forall>p \<in> set acc'. snd (snd p) = NegInfinity \<or> (\<exists>r. snd (snd p) = Finite r)"
  using assms
proof (induction S arbitrary: dyn acc)
  case Nil
  then show ?case by simp
next
  case (Cons asset rest)
  show ?case
  proof (cases "findIndex (\<lambda>d. vs_address asset = vd_address d) dyn")
    case None
    with Cons.prems(1) show ?thesis by simp
  next
    case (Some i)
    show ?thesis
    proof (cases "case find (\<lambda>override. mo_address override = vs_address asset) vmo of
                    None \<Rightarrow> False | Some ov \<Rightarrow> truthyBool (mo_hideAlways ov)")
      case True
      with Some Cons.prems(1) have "mergeLoop vmo sm he rest dyn acc = Inr (dyn', acc')"
        by (simp add: Let_def)
      from Cons.IH [OF this Cons.prems(2)] show ?thesis .
    next
      case False
      define order where "order = (case (case find (\<lambda>override. mo_address override = vs_address asset) vmo of
                                None \<Rightarrow> None | Some ov \<Rightarrow> mo_order ov) of
                                Some r \<Rightarrow> Finite r
                              | None \<Rightarrow> Math_max [])"
      have valid: "order = NegInfinity \<or> (\<exists>r. order = Finite r)"
        by (simp add: order_def Math_max_def split: option.splits)
      from Some False Cons.prems(1) obtain dyn1 where
        "mergeLoop vmo sm he rest dyn1 (acc @ [(asset, i, order)]) = Inr (dyn', acc')"
        by (simp add: Let_def order_def)
      moreover from valid Cons.prems(2)
      have "\<forall>p \<in> set (acc @ [(asset, i, order)]). snd (snd p) = NegInfinity \<or> (\<exists>r. snd (snd p) = Finite r)"
        by auto
      ultimately show ?thesis by (rule Cons.IH)
    qed
  qed
qed

text \<open>
  Whatever the fetched records are, the listing is in ascending order of the keys, where
  the key \<open>-Infinity\<close> of a vault without explicit order is below every explicit order.
\<close>

lemma listing_sorted_by_key:
  assumes "assetsWithOrder vmo sm he S D = Inr aws"
  shows "sorted_wrt (\<lambda>a b. comparatorSign (jsMinus (snd a) (snd b)) \<le> 0)
           (arraySort (\<lambda>lhs rhs. jsMinus (snd lhs) (snd rhs)) aws)
         \<and> (\<forall>p \<in> set aws. snd p = NegInfinity \<or> (\<exists>r. snd p = Finite r))"
proof -
  from assms obtain dyn acc where
    loop: "mergeLoop vmo sm he S D [] = Inr (dyn, acc)"
    and aws: "aws = map (\<lambda>(asset, i, order). (spreadVault asset (dyn ! i), order)) acc"
    by (auto simp: assetsWithOrder_def split: sum.splits)
  from mergeLoop_keys [OF loop] have "\<forall>p \<in> set acc. snd (snd p) = NegInfinity \<or> (\<exists>r. snd (snd p) = Finite r)"
    by simp
  with aws have keys: "\<forall>p \<in> set aws. snd p = NegInfinity \<or> (\<exists>r. snd p = Finite r)"
    by auto
  with arraySort_sorted [OF keys] show ?thesis by blast
qed

text \<open>
  C3 on the code: the sort key of a vault without an explicit order is \<open>Math.max()\<close>, which
  is \<open>-Infinity\<close>, so the comparator places such a vault before every vault with an explicit
  order; by \<open>listing_sorted_by_key\<close> the listing is ascending in these keys. In the listing
  of three vaults of which only \<open>vaultB\<close> has an order, \<open>vaultB\<close> comes last and the two
  vaults without an order come first.
\<close>

theorem unordered_vaults_sort_first:
  "Math_max [] = NegInfinity
   \<and> comparatorSign (jsMinus (Math_max []) (Finite r)) = - 1
   \<and> comparatorSign (jsMinus (Finite r) (Math_max [])) = 1
   \<and> map_sum id (map v_address) (fst (get orderedEnv None None []))
       = Inr [''vaultA'', ''jar'', ''vaultB'']"
proof -
  have "map_sum id (map v_address) (fst (get orderedEnv None None []))
       = Inr [''vaultA'', ''jar'', ''vaultB'']"
    by code_simp
  then show ?thesis by (simp add: Math_max_def)
qed


section \<open>Chunked fallback\<close>

lemma chunkArray_Nil: "chunkArray [] sz = []"
  by (simp add: chunkArray.simps)

lemma chunkArray_step:
  "0 < sz \<Longrightarrow> xs \<noteq> [] \<Longrightarrow> chunkArray xs sz = take sz xs # chunkArray (drop sz xs) sz"
  by (subst chunkArray.simps) simp

lemma chunkArray_concat: "0 < sz \<Longrightarrow> concat (chunkArray xs sz) = xs"
proof (induction xs sz rule: chunkArray.induct)
  case (1 xs sz)
  show ?case
  proof (cases "xs = []")
    case True
    then show ?thesis by (simp add: chunkArray_Nil)
  next
    case False
    with 1 show ?thesis by (simp add: chunkArray_step)
  qed
qed

lemma chunkArray_sizes:
  "0 < sz \<Longrightarrow> chunk \<in> set (chunkArray xs sz) \<Longrightarrow> 0 < length chunk \<and> length chunk \<le> sz"
proof (induction xs sz rule: chunkArray.induct)
  case (1 xs sz)
  show ?case
  proof (cases "xs = []")
    case True
    with 1 show ?thesis by (simp add: chunkArray_Nil)
  next
    case False
    with 1 show ?thesis by (auto simp: chunkArray_step)
  qed
qed

lemma chunkArray_full:
  "0 < sz \<Longrightarrow> chunk \<in> set (butlast (chunkArray xs sz)) \<Longrightarrow> length chunk = sz"
proof (induction xs sz rule: chunkArray.induct)
  case (1 xs sz)
  show ?case
  proof (cases "xs = []")
    case True
    with 1 show ?thesis by (simp add: chunkArray_Nil)
  next
    case False
    show ?thesis
    proof (cases "drop sz xs = []")
      case True
      with False 1 show ?thesis by (simp add: chunkArray_step chunkArray_Nil)
    next
      case rest: False
      then have more: "chunkArray (drop sz xs) sz \<noteq> []"
        using 1(2) by (simp add: chunkArray_step)
      from rest have "sz < length xs" by simp
      with False 1 more show ?thesis by (auto simp: chunkArray_step)
    qed
  qed
qed

lemma chunkArray_61:
  assumes "length xs = 61"
  shows "map length (chunkArray xs 30) = [30, 30, 1]"
proof -
  from assms have a: "xs \<noteq> []" by auto
  from assms have b: "drop 30 xs \<noteq> []" by simp
  from assms have c: "drop 30 (drop 30 xs) \<noteq> []" by simp
  from assms have d: "drop 30 (drop 30 (drop 30 xs)) = []" by simp
  have "chunkArray xs 30 =
          [take 30 xs, take 30 (drop 30 xs), take 30 (drop 30 (drop 30 xs))]"
    using a b c d by (simp add: chunkArray_step chunkArray_Nil del: drop_drop drop_eq_Nil)
  with assms show ?thesis by simp
qed

lemma list_all2_map_eq:
  "list_all2 (\<lambda>result chunk. map f result = chunk) results chunks \<Longrightarrow> map (map f) results = chunks"
  by (induction results chunks rule: list_all2_induct) auto

lemma chunk_results_cover:
  assumes "list_all2 (\<lambda>result chunk. map f result = chunk) results (chunkArray xs 30)"
  shows "map f (concat results) = xs"
proof -
  from assms have "map (map f) results = chunkArray xs 30"
    by (rule list_all2_map_eq)
  then have "concat (map (map f) results) = xs"
    by (simp add: chunkArray_concat)
  then show ?thesis by (simp add: map_concat)
qed

lemma all_io_results:
  assumes "all_io f cs h = (Inr rs, h')"
    and "\<And>c h r h'. f c h = (Inr r, h') \<Longrightarrow> P r c"
  shows "list_all2 P rs cs"
  using assms(1)
proof (induction cs arbitrary: h rs h')
  case Nil
  then show ?case by simp
next
  case (Cons c cs)
  obtain r h1 where first: "f c h = (r, h1)" by (cases "f c h")
  obtain rs' h2 where others: "all_io f cs h1 = (rs', h2)" by (cases "all_io f cs h1")
  from Cons.prems first others obtain y ys where
    r: "r = Inr y" and rs': "rs' = Inr ys" and rs: "rs = y # ys"
    by (auto split: sum.splits)
  from first r assms(2) have "P y c" by blast
  moreover from Cons.IH others rs' have "list_all2 P ys cs" by blast
  ultimately show ?case using rs by simp
qed

lemma positionsOfAdapter_log:
  assumes "adapterPositionsOf env h adapter account (Some as) overrides = Inl error"
  shows "snd (positionsOfAdapter env adapter account (Some as) overrides h) =
           h @ AdapterPositionsOf adapter account (Some as) overrides
               # map (\<lambda>chunk. AdapterPositionsOf adapter account (Some chunk) overrides)
                   (chunkArray as 30)"
proof -
  let ?h0 = "h @ [AdapterPositionsOf adapter account (Some as) overrides]"
  let ?run = "all_io (\<lambda>chunk. await_call (AdapterPositionsOf adapter account (Some chunk) overrides)
                          (\<lambda>h. adapterPositionsOf env h adapter account (Some chunk) overrides))
                (chunkArray as 30) ?h0"
  have "snd (positionsOfAdapter env adapter account (Some as) overrides h) = snd ?run"
    using assms by (simp add: positionsOfAdapter_def io_defs split: prod.splits sum.splits)
  also have "\<dots> = ?h0 @ map (\<lambda>chunk. AdapterPositionsOf adapter account (Some chunk) overrides)
                         (chunkArray as 30)"
    by (rule all_io_await_log)
  finally show ?thesis by simp
qed

lemma positionsOfAdapter_cover:
  assumes answers: "\<And>chunk h r. adapterPositionsOf env h adapter account (Some chunk) overrides = Inr r
                      \<Longrightarrow> map pos_assetAddress r = chunk"
    and failed: "adapterPositionsOf env h adapter account (Some as) overrides = Inl error"
    and run: "positionsOfAdapter env adapter account (Some as) overrides h = (Inr positions, h')"
  shows "map pos_assetAddress positions = as"
proof -
  let ?h0 = "h @ [AdapterPositionsOf adapter account (Some as) overrides]"
  let ?f = "\<lambda>chunk. await_call (AdapterPositionsOf adapter account (Some chunk) overrides)
                          (\<lambda>h. adapterPositionsOf env h adapter account (Some chunk) overrides)"
  obtain rs h2 where chunks: "all_io ?f (chunkArray as 30) ?h0 = (rs, h2)"
    by (cases "all_io ?f (chunkArray as 30) ?h0")
  from run failed chunks obtain results where rs: "rs = Inr results" and flat: "positions = concat results"
    by (auto simp: positionsOfAdapter_def io_defs split: sum.splits)
  have "list_all2 (\<lambda>result chunk. map pos_assetAddress result = chunk) results (chunkArray as 30)"
  proof (rule all_io_results)
    show "all_io ?f (chunkArray as 30) ?h0 = (Inr results, h2)"
      using chunks rs by simp
  next
    fix c h r h'
    assume "?f c h = (Inr r, h')"
    then have "adapterPositionsOf env h adapter account (Some c) overrides = Inr r"
      by (simp add: await_call_def)
    then show "map pos_assetAddress r = c" by (rule answers)
  qed
  then show ?thesis using flat by (simp add: chunk_results_cover)
qed

lemma getDynamicOrChunked_cover:
  assumes answers: "\<And>chunk h r h'. getDynamic env (Some chunk) (Some vmo) overrides h = (Inr r, h')
                      \<Longrightarrow> map vd_address r = chunk"
    and failed: "getDynamic env addresses (Some vmo) overrides h = (Inl error, h1)"
    and run: "getDynamicOrChunked env addresses vmo overrides S h = (Inr dynamics, h2)"
  shows "map vd_address dynamics = map vs_address S"
proof -
  let ?f = "\<lambda>chunk. getDynamic env (Some chunk) (Some vmo) overrides"
  obtain rs h3 where chunks: "all_io ?f (chunkArray (map vs_address S) 30) h1 = (rs, h3)"
    by (cases "all_io ?f (chunkArray (map vs_address S) 30) h1")
  from run failed chunks obtain results where rs: "rs = Inr results" and flat: "dynamics = concat results"
    by (auto simp: getDynamicOrChunked_def io_defs Let_def split: sum.splits)
  have "list_all2 (\<lambda>result chunk. map vd_address result = chunk) results (chunkArray (map vs_address S) 30)"
  proof (rule all_io_results)
    show "all_io ?f (chunkArray (map vs_address S) 30) h1 = (Inr results, h3)"
      using chunks rs by simp
  next
    fix c h r h'
    assume "?f c h = (Inr r, h')"
    then show "map vd_address r = c" by (rule answers)
  qed
  then show ?thesis using flat by (simp add: chunk_results_cover)
qed

lemma getInputs_dynamic:
  assumes "metaVaultsOrEmpty env h = (Inr vmo, h0)"
    and "getStatic env addresses overrides h0 = (Inr S, h1)"
    and "getDynamicOrChunked env addresses vmo overrides S h1 = (Inr D, h2)"
  shows "\<exists>sm he h3. getInputs env addresses overrides h = (Inr (vmo, S, D, sm, he), h3)"
  using assms by (simp add: getInputs_def io_defs split: sum.splits)


text \<open>
  C6: the chunked query is issued only in the \<open>catch\<close> of the unchunked one. In \<open>get\<close> the
  addresses of all static records, and in \<open>positionsOf\<close>, for each adapter, the given
  addresses (or those of all static records when none were given), are split by
  \<open>chunkArray\<close> into chunks of 30, the query is issued once per chunk, and the results are
  flattened; on a cache miss the flattened records are the dynamic records that \<open>get\<close>
  merges. The chunks, put together again, are the address list itself: every chunk but the
  last has 30 addresses, none is empty, and 61 addresses give chunks of 30, 30 and 1. When
  every chunk query answers with the records of its chunk, the records that the fallback
  returns have the addresses of the original list, each as often as the list has it.
\<close>

theorem chunked_fallback:
  "getDynamicOrChunked env addresses vmo overrides S h =
     (case getDynamic env addresses (Some vmo) overrides h of
        (Inr dynamics, h1) \<Rightarrow> (Inr dynamics, h1)
      | (Inl error, h1) \<Rightarrow>
          (case all_io (\<lambda>chunk. getDynamic env (Some chunk) (Some vmo) overrides)
                  (chunkArray (map vs_address S) 30) h1 of
             (Inl error', h2) \<Rightarrow> (Inl error', h2)
           | (Inr results, h2) \<Rightarrow> (Inr (concat results), h2)))
   \<and> (cachedFetcherGet env hg = None \<longrightarrow>
        metaVaultsOrEmpty env (hg @ [CachedFetcherGet]) = (Inr vmo, hga) \<longrightarrow>
        getStatic env addresses overrides hga = (Inr S, hgb) \<longrightarrow>
        getDynamicOrChunked env addresses vmo overrides S hgb = (Inr D, hgc) \<longrightarrow>
        (\<exists>sm he hg3.
           get env addresses overrides hg =
             (case mergeAndSort vmo sm he S D of
                Inl e \<Rightarrow> (Inl e, hg3)
              | Inr vaults \<Rightarrow> (Inr vaults, hg3))))
   \<and> positionsOf env account addresses overrides h =
     (case all_io (\<lambda>adapter. positionsOfAdapter env adapter account addresses overrides)
             (adapters env) h of
        (Inl error, h1) \<Rightarrow> (Inl error, h1)
      | (Inr arr, h1) \<Rightarrow> (Inr (concat arr), h1))
   \<and> positionsOfAdapter env adapter account addresses overrides h =
     (case adapterPositionsOf env h adapter account addresses overrides of
        Inr positions \<Rightarrow>
          (Inr positions, h @ [AdapterPositionsOf adapter account addresses overrides])
      | Inl error \<Rightarrow>
          (case (case addresses of
                   Some as \<Rightarrow> (Inr as, h @ [AdapterPositionsOf adapter account addresses overrides])
                 | None \<Rightarrow>
                     (case getStatic env addresses overrides
                             (h @ [AdapterPositionsOf adapter account addresses overrides]) of
                        (Inl error', h1) \<Rightarrow> (Inl error', h1)
                      | (Inr assets, h1) \<Rightarrow> (Inr (map vs_address assets), h1))) of
             (Inl error', h1) \<Rightarrow> (Inl error', h1)
           | (Inr allAddresses, h1) \<Rightarrow>
               (case all_io (\<lambda>chunk. await_call (AdapterPositionsOf adapter account (Some chunk) overrides)
                                       (\<lambda>h. adapterPositionsOf env h adapter account (Some chunk) overrides))
                       (chunkArray allAddresses 30) h1 of
                  (Inl error', h2) \<Rightarrow> (Inl error', h2)
                | (Inr results, h2) \<Rightarrow> (Inr (concat results), h2))))
   \<and> (adapterPositionsOf env hp adapter account (Some as) overrides = Inl perror \<longrightarrow>
        snd (positionsOfAdapter env adapter account (Some as) overrides hp) =
          hp @ AdapterPositionsOf adapter account (Some as) overrides
               # map (\<lambda>chunk. AdapterPositionsOf adapter account (Some chunk) overrides)
                   (chunkArray as 30))
   \<and> concat (chunkArray xs 30) = xs
   \<and> (\<forall>chunk \<in> set (chunkArray xs 30). 0 < length chunk \<and> length chunk \<le> 30)
   \<and> (\<forall>chunk \<in> set (butlast (chunkArray xs 30)). length chunk = 30)
   \<and> (length xs = 61 \<longrightarrow> map length (chunkArray xs 30) = [30, 30, 1])
   \<and> ((\<forall>chunk h r h'. getDynamic env (Some chunk) (Some vmo) overrides h = (Inr r, h')
                        \<longrightarrow> map vd_address r = chunk) \<longrightarrow>
        getDynamic env addresses (Some vmo) overrides hq = (Inl derror, hqa) \<longrightarrow>
        getDynamicOrChunked env addresses vmo overrides S hq = (Inr dynamics, hqb) \<longrightarrow>
        map vd_address dynamics = map vs_address S)
   \<and> ((\<forall>chunk h r. adapterPositionsOf env h adapter account (Some chunk) overrides = Inr r
                     \<longrightarrow> map pos_assetAddress r = chunk) \<longrightarrow>
        adapterPositionsOf env hp adapter account (Some as) overrides = Inl perror \<longrightarrow>
        positionsOfAdapter env adapter account (Some as) overrides hp = (Inr positions, hp') \<longrightarrow>
        map pos_assetAddress positions = as)"
proof -
  have dyn: "getDynamicOrChunked env addresses vmo overrides S h =
     (case getDynamic env addresses (Some vmo) overrides h of
        (Inr dynamics, h1) \<Rightarrow> (Inr dynamics, h1)
      | (Inl error, h1) \<Rightarrow>
          (case all_io (\<lambda>chunk. getDynamic env (Some chunk) (Some vmo) overrides)
                  (chunkArray (map vs_address S) 30) h1 of
             (Inl error', h2) \<Rightarrow> (Inl error', h2)
           | (Inr results, h2) \<Rightarrow> (Inr (concat results), h2)))"
    by (simp add: getDynamicOrChunked_def catch_io_def bind_io_def return_io_def Let_def
          split: prod.splits sum.splits)
  have listing: "cachedFetcherGet env hg = None \<longrightarrow>
        metaVaultsOrEmpty env (hg @ [CachedFetcherGet]) = (Inr vmo, hga) \<longrightarrow>
        getStatic env addresses overrides hga = (Inr S, hgb) \<longrightarrow>
        getDynamicOrChunked env addresses vmo overrides S hgb = (Inr D, hgc) \<longrightarrow>
        (\<exists>sm he hg3.
           get env addresses overrides hg =
             (case mergeAndSort vmo sm he S D of
                Inl e \<Rightarrow> (Inl e, hg3)
              | Inr vaults \<Rightarrow> (Inr vaults, hg3)))"
  proof (intro impI)
    assume cold: "cachedFetcherGet env hg = None"
      and meta: "metaVaultsOrEmpty env (hg @ [CachedFetcherGet]) = (Inr vmo, hga)"
      and static: "getStatic env addresses overrides hga = (Inr S, hgb)"
      and dynamic: "getDynamicOrChunked env addresses vmo overrides S hgb = (Inr D, hgc)"
    from getInputs_dynamic [OF meta static dynamic] obtain sm he hg3 where
      "getInputs env addresses overrides (hg @ [CachedFetcherGet]) = (Inr (vmo, S, D, sm, he), hg3)"
      by blast
    from get_cold [OF cold this] show "\<exists>sm he hg3.
           get env addresses overrides hg =
             (case mergeAndSort vmo sm he S D of
                Inl e \<Rightarrow> (Inl e, hg3)
              | Inr vaults \<Rightarrow> (Inr vaults, hg3))"
      by blast
  qed
  have fan: "positionsOf env account addresses overrides h =
     (case all_io (\<lambda>adapter. positionsOfAdapter env adapter account addresses overrides)
             (adapters env) h of
        (Inl error, h1) \<Rightarrow> (Inl error, h1)
      | (Inr arr, h1) \<Rightarrow> (Inr (concat arr), h1))"
    by (simp add: positionsOf_def bind_io_def return_io_def split: prod.splits sum.splits)
  have pos: "positionsOfAdapter env adapter account addresses overrides h =
     (case adapterPositionsOf env h adapter account addresses overrides of
        Inr positions \<Rightarrow>
          (Inr positions, h @ [AdapterPositionsOf adapter account addresses overrides])
      | Inl error \<Rightarrow>
          (case (case addresses of
                   Some as \<Rightarrow> (Inr as, h @ [AdapterPositionsOf adapter account addresses overrides])
                 | None \<Rightarrow>
                     (case getStatic env addresses overrides
                             (h @ [AdapterPositionsOf adapter account addresses overrides]) of
                        (Inl error', h1) \<Rightarrow> (Inl error', h1)
                      | (Inr assets, h1) \<Rightarrow> (Inr (map vs_address assets), h1))) of
             (Inl error', h1) \<Rightarrow> (Inl error', h1)
           | (Inr allAddresses, h1) \<Rightarrow>
               (case all_io (\<lambda>chunk. await_call (AdapterPositionsOf adapter account (Some chunk) overrides)
                                       (\<lambda>h. adapterPositionsOf env h adapter account (Some chunk) overrides))
                       (chunkArray allAddresses 30) h1 of
                  (Inl error', h2) \<Rightarrow> (Inl error', h2)
                | (Inr results, h2) \<Rightarrow> (Inr (concat results), h2))))"
    by (cases "adapterPositionsOf env h adapter account addresses overrides"; cases addresses)
       (simp_all add: positionsOfAdapter_def io_defs split: prod.splits sum.splits)
  have poslog: "adapterPositionsOf env hp adapter account (Some as) overrides = Inl perror \<longrightarrow>
        snd (positionsOfAdapter env adapter account (Some as) overrides hp) =
          hp @ AdapterPositionsOf adapter account (Some as) overrides
               # map (\<lambda>chunk. AdapterPositionsOf adapter account (Some chunk) overrides)
                   (chunkArray as 30)"
    using positionsOfAdapter_log by blast
  have cat: "concat (chunkArray xs 30) = xs"
    by (simp add: chunkArray_concat)
  have sizes: "\<forall>chunk \<in> set (chunkArray xs 30). 0 < length chunk \<and> length chunk \<le> 30"
    using chunkArray_sizes [of 30 _ xs] by simp
  have full: "\<forall>chunk \<in> set (butlast (chunkArray xs 30)). length chunk = 30"
    using chunkArray_full [of 30 _ xs] by simp
  have sixty_one: "length xs = 61 \<longrightarrow> map length (chunkArray xs 30) = [30, 30, 1]"
    using chunkArray_61 by blast
  have cover: "(\<forall>chunk h r h'. getDynamic env (Some chunk) (Some vmo) overrides h = (Inr r, h')
                        \<longrightarrow> map vd_address r = chunk) \<longrightarrow>
        getDynamic env addresses (Some vmo) overrides hq = (Inl derror, hqa) \<longrightarrow>
        getDynamicOrChunked env addresses vmo overrides S hq = (Inr dynamics, hqb) \<longrightarrow>
        map vd_address dynamics = map vs_address S"
    using getDynamicOrChunked_cover [of env vmo overrides addresses hq derror hqa S dynamics hqb]
    by blast
  have cover': "(\<forall>chunk h r. adapterPositionsOf env h adapter account (Some chunk) overrides = Inr r
                     \<longrightarrow> map pos_assetAddress r = chunk) \<longrightarrow>
        adapterPositionsOf env hp adapter account (Some as) overrides = Inl perror \<longrightarrow>
        positionsOfAdapter env adapter account (Some as) overrides hp = (Inr positions, hp') \<longrightarrow>
        map pos_assetAddress positions = as"
    using positionsOfAdapter_cover [of env adapter account overrides hp as perror positions hp']
    by blast
  show ?thesis
    by (intro conjI) (fact dyn listing fan pos poslog cat sizes full sixty_one cover cover')+
qed


lemma chunkedEnv_dynamic_answers:
  "getDynamic chunkedEnv (Some chunk) (Some []) None h = (Inr r, h') \<Longrightarrow> map vd_address r = chunk"
  by (auto simp: getDynamic_def chunkedEnv_def demoEnv_def smallQueriesOnly_def io_defs
        enrichDynamic_address demoDynamic_def o_def split: if_splits)

lemma chunkedEnv_position_answers:
  "adapterPositionsOf chunkedEnv h adapter account (Some chunk) overrides = Inr r
   \<Longrightarrow> map pos_assetAddress r = chunk"
  by (auto simp: chunkedEnv_def smallPositionQueriesOnly_def demoPosition_def o_def
        split: if_splits)

theorem chunked_fallback_witness:
  "length manyAddresses = 61
   \<and> map length (chunkArray manyAddresses 30) = [30, 30, 1]
   \<and> concat (chunkArray manyAddresses 30) = manyAddresses
   \<and> distinct manyAddresses
   \<and> cachedFetcherGet chunkedEnv [] = None
   \<and> fst (getDynamic chunkedEnv None (Some []) None
            [CachedFetcherGet, MetaVaults, AssetsStatic 0 None None])
       = Inl (External None ''call size limit'')
   \<and> (\<exists>dynamics h2.
         getDynamicOrChunked chunkedEnv None [] None (map demoStatic manyAddresses)
           [CachedFetcherGet, MetaVaults, AssetsStatic 0 None None] = (Inr dynamics, h2)
         \<and> map vd_address dynamics = map vs_address (map demoStatic manyAddresses))
   \<and> map (map_option length) (dynamicQueries (snd (get chunkedEnv None None [])))
       = [None, Some 30, Some 30, Some 1]
   \<and> map_sum id (map v_address) (fst (get chunkedEnv None None [])) = Inr manyAddresses
   \<and> adapterPositionsOf chunkedEnv [] 0 ''account'' (Some manyAddresses) None
       = Inl (External None ''call size limit'')
   \<and> (\<exists>positions h'.
         positionsOfAdapter chunkedEnv 0 ''account'' (Some manyAddresses) None [] = (Inr positions, h')
         \<and> map pos_assetAddress positions = manyAddresses)
   \<and> snd (positionsOf chunkedEnv ''account'' (Some manyAddresses) None []) =
       [] @ AdapterPositionsOf 0 ''account'' (Some manyAddresses) None
            # map (\<lambda>chunk. AdapterPositionsOf 0 ''account'' (Some chunk) None)
                (chunkArray manyAddresses 30)
   \<and> map_sum id (map pos_assetAddress)
         (fst (positionsOf chunkedEnv ''account'' (Some manyAddresses) None []))
       = Inr manyAddresses"
proof -
  let ?h = "[CachedFetcherGet, MetaVaults, AssetsStatic 0 None None]"
  let ?S = "map demoStatic manyAddresses"
  note fallback = chunked_fallback
    [where env = chunkedEnv and xs = manyAddresses and S = ?S and vmo = "[]"
       and addresses = None and overrides = None and hq = ?h
       and adapter = 0 and account = "''account''" and as = manyAddresses and hp = "[]"
       and perror = "External None ''call size limit''"
       and derror = "External None ''call size limit''"]
  have len: "length manyAddresses = 61"
    by (simp add: manyAddresses_def)
  have dist: "distinct manyAddresses"
    by code_simp
  have cold: "cachedFetcherGet chunkedEnv [] = None"
    by (simp add: chunkedEnv_def demoEnv_def)
  have queries: "map (map_option length) (dynamicQueries (snd (get chunkedEnv None None [])))
       = [None, Some 30, Some 30, Some 1]"
    by code_simp
  have listing: "map_sum id (map v_address) (fst (get chunkedEnv None None [])) = Inr manyAddresses"
    by code_simp
  from fallback len have sizes: "map length (chunkArray manyAddresses 30) = [30, 30, 1]"
    by blast
  from fallback have cat: "concat (chunkArray manyAddresses 30) = manyAddresses"
    by blast
  have dfail: "fst (getDynamic chunkedEnv None (Some []) None ?h)
       = Inl (External None ''call size limit'')"
    by (simp add: getDynamic_def chunkedEnv_def demoEnv_def smallQueriesOnly_def io_defs)
  then obtain hqa where dfailed:
    "getDynamic chunkedEnv None (Some []) None ?h = (Inl (External None ''call size limit''), hqa)"
    by (cases "getDynamic chunkedEnv None (Some []) None ?h") simp
  have "\<not> isl (fst (getDynamicOrChunked chunkedEnv None [] None ?S ?h))"
    by code_simp
  then obtain dynamics hqb where
    drun: "getDynamicOrChunked chunkedEnv None [] None ?S ?h = (Inr dynamics, hqb)"
    by (cases "getDynamicOrChunked chunkedEnv None [] None ?S ?h";
        cases "fst (getDynamicOrChunked chunkedEnv None [] None ?S ?h)") auto
  have danswers: "\<forall>chunk h r h'. getDynamic chunkedEnv (Some chunk) (Some []) None h = (Inr r, h')
                        \<longrightarrow> map vd_address r = chunk"
    using chunkedEnv_dynamic_answers by blast
  from fallback [where dynamics = dynamics and hqa = hqa and hqb = hqb] danswers dfailed drun
  have "map vd_address dynamics = map vs_address ?S"
    by blast
  with drun have dcover: "\<exists>dynamics h2.
         getDynamicOrChunked chunkedEnv None [] None ?S ?h = (Inr dynamics, h2)
         \<and> map vd_address dynamics = map vs_address ?S"
    by blast
  have pfail: "adapterPositionsOf chunkedEnv [] 0 ''account'' (Some manyAddresses) None
       = Inl (External None ''call size limit'')"
    using len by (simp add: chunkedEnv_def smallPositionQueriesOnly_def)
  have "\<not> isl (fst (positionsOfAdapter chunkedEnv 0 ''account'' (Some manyAddresses) None []))"
    by code_simp
  then obtain positions hp' where
    prun: "positionsOfAdapter chunkedEnv 0 ''account'' (Some manyAddresses) None [] = (Inr positions, hp')"
    by (cases "positionsOfAdapter chunkedEnv 0 ''account'' (Some manyAddresses) None []";
        cases "fst (positionsOfAdapter chunkedEnv 0 ''account'' (Some manyAddresses) None [])") auto
  have panswers: "\<forall>chunk h r. adapterPositionsOf chunkedEnv h 0 ''account'' (Some chunk) None = Inr r
                     \<longrightarrow> map pos_assetAddress r = chunk"
    using chunkedEnv_position_answers by blast
  from fallback [where positions = positions and hp' = hp'] panswers pfail prun
  have "map pos_assetAddress positions = manyAddresses"
    by blast
  with prun have pcover: "\<exists>positions h'.
         positionsOfAdapter chunkedEnv 0 ''account'' (Some manyAddresses) None [] = (Inr positions, h')
         \<and> map pos_assetAddress positions = manyAddresses"
    by blast
  have plog: "snd (positionsOf chunkedEnv ''account'' (Some manyAddresses) None []) =
       [] @ AdapterPositionsOf 0 ''account'' (Some manyAddresses) None
            # map (\<lambda>chunk. AdapterPositionsOf 0 ''account'' (Some chunk) None)
                (chunkArray manyAddresses 30)"
    by code_simp
  have pall: "map_sum id (map pos_assetAddress)
         (fst (positionsOf chunkedEnv ''account'' (Some manyAddresses) None []))
       = Inr manyAddresses"
    by code_simp
  show ?thesis
    by (intro conjI) (fact len sizes cat dist cold dfail dcover queries listing pfail pcover plog pall)+
qed


end
